theory Spec2Isabelle
  imports Main
begin

section \<open>Strings and formatting helpers\<close>

text \<open>
  Go strings are byte sequences; they are modelled as \<open>string\<close> (a list of characters).
  \<open>fmt.Sprintf("%d", n)\<close> is the decimal rendering \<open>itoa\<close>; \<open>assert.Contains\<close> and
  \<open>strings.Contains\<close> are \<open>Contains\<close>.
\<close>

definition digit_char :: "nat \<Rightarrow> char" where
  "digit_char d =
     (if d = 0 then CHR ''0'' else if d = 1 then CHR ''1'' else if d = 2 then CHR ''2''
      else if d = 3 then CHR ''3'' else if d = 4 then CHR ''4'' else if d = 5 then CHR ''5''
      else if d = 6 then CHR ''6'' else if d = 7 then CHR ''7'' else if d = 8 then CHR ''8''
      else CHR ''9'')"

fun digits :: "nat \<Rightarrow> string" where
  "digits n = (if n < 10 then [digit_char n] else digits (n div 10) @ [digit_char (n mod 10)])"

declare digits.simps [simp del]

definition itoa :: "int \<Rightarrow> string" where
  "itoa i = (if i < 0 then CHR ''-'' # digits (nat (- i)) else digits (nat i))"

fun HasPrefix :: "string \<Rightarrow> string \<Rightarrow> bool" where
  "HasPrefix s [] = True"
| "HasPrefix [] (p # ps) = False"
| "HasPrefix (c # cs) (p # ps) = (c = p \<and> HasPrefix cs ps)"

fun Contains :: "string \<Rightarrow> string \<Rightarrow> bool" where
  "Contains [] sub = (sub = [])"
| "Contains (c # cs) sub = (HasPrefix (c # cs) sub \<or> Contains cs sub)"

section \<open>Tool Execution Supervisor: the shell tool (pollable variant)\<close>

text \<open>
  The embedding follows \<open>shellHandler.RunShell\<close>, \<open>shellHandler.GetLogs\<close> and
  \<open>ShellTool.Stop\<close> of the pollable shell tool (the second file of
  \<open>src/pkg/oci/session.go\<close>, package \<open>builtin\<close>).

  The operating system is the environment of these functions.  A started process is
  described by its pid, by the content of the two output buffers at every instant
  (nanoseconds, the unit of \<open>time.Duration\<close>), and by the instant at which the waiter
  goroutine puts the result of \<open>cmd.Wait()\<close> on the \<open>done\<close> channel, if it ever does.
  An error is its message.
\<close>

type_synonym time = int

record process =
  Pid :: int
  stdoutAt :: "time \<Rightarrow> string"
  stderrAt :: "time \<Rightarrow> string"
  doneAt :: "(time \<times> string option) option"

text \<open>\<open>backgroundCommand\<close>: \<open>cmd\<close>, \<open>outBuf\<close>, \<open>errBuf\<close> and \<open>done\<close> all belong to the
  running process, so an entry of the table is the process it refers to.\<close>

type_synonym backgroundCommand = process

record shellHandler =
  shell :: string
  shellArgsPrefix :: "string list"
  env :: "string list"
  processes :: "int option list"
  backgroundCommands :: "int \<rightharpoonup> backgroundCommand"

record RunShellArgs =
  Cmd :: string
  Cwd :: string
  Background :: bool

record GetLogsArgs =
  PID :: int

record ToolCallResult =
  Output :: string

text \<open>\<open>exec.Cmd\<close> as \<open>RunShell\<close> configures it before starting it.\<close>

record ExecCmd =
  Path :: string
  Args :: "string list"
  Env :: "string list"
  Dir :: string
  Setpgid :: bool

text \<open>What starting a command can do: either pipe fails to be created, the start fails,
  or a process runs.\<close>

datatype launch =
  StdoutPipeError string
| StderrPipeError string
| StartError string
| Started process

text \<open>
  The environment of one call: the platform, the result of \<open>os.Getwd()\<close>, the clock at
  the call, what the operating system does with the command, and the choice \<open>select\<close>
  makes when both of its cases are ready at the same instant.
\<close>

record os =
  windows :: bool
  Getwd :: "string + string"
  now :: time
  start :: "ExecCmd \<Rightarrow> launch"
  selectPrefersDone :: bool

definition quickCommandTimeout :: time where
  "quickCommandTimeout = 10 * 1000000000"

text \<open>A non-blocking receive on \<open>done\<close> at instant \<open>t\<close>: the value is there from
  \<open>doneAt\<close> on.\<close>

definition recvDone :: "process \<Rightarrow> time \<Rightarrow> string option option" where
  "recvDone p t =
     (case doneAt p of
        None \<Rightarrow> None
      | Some (d, err) \<Rightarrow> if d \<le> t then Some err else None)"

text \<open>\<open>select { case err := <-done: ... case <-time.After(timeout): ... }\<close> entered at
  instant \<open>t0\<close>: the result is the instant at which it fires and the received error, or
  \<open>None\<close> for the timer.\<close>

definition selectDone :: "bool \<Rightarrow> process \<Rightarrow> time \<Rightarrow> time \<Rightarrow> time \<times> string option option" where
  "selectDone tie p t0 timeout =
     (case doneAt p of
        None \<Rightarrow> (t0 + timeout, None)
      | Some (d, err) \<Rightarrow>
          if d < t0 + timeout then (max d t0, Some err)
          else if d = t0 + timeout \<and> tie then (d, Some err)
          else (t0 + timeout, None))"

text \<open>The deferred function of \<open>RunShell\<close>: the first tracked process with this pid is
  removed from \<open>h.processes\<close>.\<close>

fun untrack :: "int \<Rightarrow> int option list \<Rightarrow> int option list" where
  "untrack pid [] = []"
| "untrack pid (p # ps) =
     (case p of
        None \<Rightarrow> p # untrack pid ps
      | Some q \<Rightarrow> if q = pid then ps else p # untrack pid ps)"

definition buildCmd :: "shellHandler \<Rightarrow> os \<Rightarrow> RunShellArgs \<Rightarrow> ExecCmd" where
  "buildCmd h e params =
     \<lparr> Path = shell h,
       Args = shellArgsPrefix h @ [Cmd params],
       Env = env h,
       Dir = (if Cwd params \<noteq> [] then Cwd params
              else (case Getwd e of Inr wd \<Rightarrow> wd | Inl err \<Rightarrow> [])),
       Setpgid = (\<not> windows e) \<rparr>"

definition backgroundMessage :: "int \<Rightarrow> string" where
  "backgroundMessage pid =
     ''Command is running in background (PID: '' @ itoa pid
       @ ''). Use get_logs tool with this PID to retrieve output.''"

definition RunShell ::
  "(string \<Rightarrow> string + RunShellArgs) \<Rightarrow> os \<Rightarrow> shellHandler \<Rightarrow> string
     \<Rightarrow> (string + ToolCallResult) \<times> shellHandler" where
  "RunShell unmarshal e h arguments =
     (case unmarshal arguments of
        Inl err \<Rightarrow> (Inl (''invalid arguments: '' @ err), h)
      | Inr params \<Rightarrow>
          (case start e (buildCmd h e params) of
             StdoutPipeError err \<Rightarrow>
               (Inr \<lparr> Output = ''Error creating stdout pipe: '' @ err \<rparr>, h)
           | StderrPipeError err \<Rightarrow>
               (Inr \<lparr> Output = ''Error creating stderr pipe: '' @ err \<rparr>, h)
           | StartError err \<Rightarrow>
               (Inr \<lparr> Output = ''Error starting command: '' @ err \<rparr>, h)
           | Started p \<Rightarrow>
               (let h1 = h\<lparr> processes := processes h @ [Some (Pid p)] \<rparr>;
                    register = (\<lambda>s. s\<lparr> backgroundCommands := (backgroundCommands s)(Pid p \<mapsto> p) \<rparr>);
                    finish = (\<lambda>s. s\<lparr> processes := untrack (Pid p) (processes s) \<rparr>)
                in if Background params then
                     (Inr \<lparr> Output = backgroundMessage (Pid p) \<rparr>, finish (register h1))
                   else
                     (case selectDone (selectPrefersDone e) p (now e) quickCommandTimeout of
                        (t, Some err) \<Rightarrow>
                          (let output = stdoutAt p t @ stderrAt p t
                           in (case err of
                                 Some msg \<Rightarrow>
                                   (Inr \<lparr> Output = ''Error executing command: '' @ msg
                                            @ [CHR 0x0A] @ ''Output: '' @ output \<rparr>, finish h1)
                               | None \<Rightarrow>
                                   (Inr \<lparr> Output = ''Output: '' @ output \<rparr>, finish h1)))
                      | (t, None) \<Rightarrow>
                          (Inr \<lparr> Output = backgroundMessage (Pid p) \<rparr>, finish (register h1))))))"

definition GetLogs ::
  "(string \<Rightarrow> string + GetLogsArgs) \<Rightarrow> time \<Rightarrow> shellHandler \<Rightarrow> string
     \<Rightarrow> (string + ToolCallResult) \<times> shellHandler" where
  "GetLogs unmarshal t h arguments =
     (case unmarshal arguments of
        Inl err \<Rightarrow> (Inl (''invalid arguments: '' @ err), h)
      | Inr params \<Rightarrow>
          (case backgroundCommands h (PID params) of
             None \<Rightarrow>
               (Inr \<lparr> Output = ''No background command found with PID: '' @ itoa (PID params) \<rparr>, h)
           | Some bgCmd \<Rightarrow>
               (case recvDone bgCmd t of
                  Some err \<Rightarrow>
                    (let h' = h\<lparr> backgroundCommands := (backgroundCommands h)(PID params := None) \<rparr>;
                         output = stdoutAt bgCmd t @ stderrAt bgCmd t
                     in (case err of
                           Some msg \<Rightarrow>
                             (Inr \<lparr> Output = ''Command (PID: '' @ itoa (PID params)
                                      @ '') completed with error: '' @ msg
                                      @ [CHR 0x0A, CHR 0x0A] @ ''Output:'' @ [CHR 0x0A] @ output \<rparr>, h')
                         | None \<Rightarrow>
                             (Inr \<lparr> Output = ''Command (PID: '' @ itoa (PID params)
                                      @ '') completed successfully.''
                                      @ [CHR 0x0A, CHR 0x0A] @ ''Output:'' @ [CHR 0x0A] @ output \<rparr>, h')))
                | None \<Rightarrow>
                    (let output = stdoutAt bgCmd t @ stderrAt bgCmd t
                     in if output = [] then
                          (Inr \<lparr> Output = ''Command (PID: '' @ itoa (PID params)
                                   @ '') is still running. No output yet.'' \<rparr>, h)
                        else
                          (Inr \<lparr> Output = ''Command (PID: '' @ itoa (PID params)
                                   @ '') is still running.'' @ [CHR 0x0A, CHR 0x0A]
                                   @ ''Current output:'' @ [CHR 0x0A] @ output \<rparr>, h)))))"

text \<open>A sequence of \<open>get_logs\<close> calls with the same arguments, at the given instants,
  each on the handler the previous one left.\<close>

fun pollAll ::
  "(string \<Rightarrow> string + GetLogsArgs) \<Rightarrow> shellHandler \<Rightarrow> string \<Rightarrow> time list
     \<Rightarrow> (string + ToolCallResult) list \<times> shellHandler" where
  "pollAll unmarshal h arguments [] = ([], h)"
| "pollAll unmarshal h arguments (t # ts) =
     (case GetLogs unmarshal t h arguments of
        (r, h') \<Rightarrow> (case pollAll unmarshal h' arguments ts of (rs, h'') \<Rightarrow> (r # rs, h'')))"

text \<open>A signal sent by \<open>Stop\<close>: \<open>proc.Kill()\<close> on the process, or
  \<open>syscall.Kill(-pid, SIGTERM)\<close> on its process group.\<close>

datatype signal = ProcessKill int | GroupSIGTERM int

fun killAll :: "bool \<Rightarrow> int option list \<Rightarrow> signal list" where
  "killAll w [] = []"
| "killAll w (proc # ps) =
     (case proc of
        None \<Rightarrow> killAll w ps
      | Some pid \<Rightarrow> (if w then ProcessKill pid else GroupSIGTERM pid) # killAll w ps)"

definition Stop :: "os \<Rightarrow> shellHandler \<Rightarrow> signal list \<times> shellHandler" where
  "Stop e h = (killAll (windows e) (processes h), h\<lparr> processes := [] \<rparr>)"

definition NewShellHandler :: "string \<Rightarrow> string list \<Rightarrow> string list \<Rightarrow> shellHandler" where
  "NewShellHandler sh argsPrefix environ =
     \<lparr> shell = sh, shellArgsPrefix = argsPrefix, env = environ,
       processes = [], backgroundCommands = Map.empty \<rparr>"

text \<open>Inputs used to run the model: three processes, the decoder \<open>json.Unmarshal\<close> on
  the argument strings the tests build with \<open>json.Marshal\<close>, and an operating system that
  starts them.\<close>

definition sleeper :: process where
  "sleeper =
     \<lparr> Pid = 4242, stdoutAt = (\<lambda>t. if t < 1000000000 then [] else ''hello''),
       stderrAt = (\<lambda>t. []), doneAt = Some (5000000000, None) \<rparr>"

definition server :: process where
  "server =
     \<lparr> Pid = 4343, stdoutAt = (\<lambda>t. if t < 1000000000 then [] else ''listening''),
       stderrAt = (\<lambda>t. []), doneAt = None \<rparr>"

definition failing :: process where
  "failing =
     \<lparr> Pid = 4444, stdoutAt = (\<lambda>t. []),
       stderrAt = (\<lambda>t. ''sh: command_that_does_not_exist: not found''),
       doneAt = Some (20000000, Some ''exit status 127'') \<rparr>"

definition exampleUnmarshal :: "string \<Rightarrow> string + RunShellArgs" where
  "exampleUnmarshal s =
     (if s = ''{\"cmd\":\"sleep 5\",\"cwd\":\"\",\"background\":true}''
        then Inr \<lparr> Cmd = ''sleep 5'', Cwd = [], Background = True \<rparr>
      else if s = ''{\"cmd\":\"sleep 5\",\"cwd\":\"\"}''
        then Inr \<lparr> Cmd = ''sleep 5'', Cwd = [], Background = False \<rparr>
      else if s = ''{\"cmd\":\"serve\",\"cwd\":\"\"}''
        then Inr \<lparr> Cmd = ''serve'', Cwd = [], Background = False \<rparr>
      else if s = ''{\"cmd\":\"command_that_does_not_exist\",\"cwd\":\"\"}''
        then Inr \<lparr> Cmd = ''command_that_does_not_exist'', Cwd = [], Background = False \<rparr>
      else if s = ''{\"cmd\":\"command_that_does_not_exist\",\"cwd\":\"\",\"background\":true}''
        then Inr \<lparr> Cmd = ''command_that_does_not_exist'', Cwd = [], Background = True \<rparr>
      else Inl ''invalid character'')"

definition exampleOS :: os where
  "exampleOS =
     \<lparr> windows = False, Getwd = Inr ''/work'', now = 0,
       start = (\<lambda>c. if Args c = [''-c'', ''sleep 5''] then Started sleeper
                     else if Args c = [''-c'', ''serve''] then Started server
                     else if Args c = [''-c'', ''command_that_does_not_exist''] then Started failing
                     else StartError ''exec: no such file''),
       selectPrefersDone = False \<rparr>"

definition exampleHandler :: shellHandler where
  "exampleHandler = NewShellHandler ''/bin/sh'' [''-c''] []"

definition decodePid :: "string \<Rightarrow> string + GetLogsArgs" where
  "decodePid s =
     (if s = ''{\"pid\":4242}'' then Inr \<lparr> PID = 4242 \<rparr>
      else if s = ''{\"pid\":4444}'' then Inr \<lparr> PID = 4444 \<rparr>
      else Inl ''invalid character'')"

text \<open>The handler after \<open>sleep 5\<close> has been started in the background.\<close>

definition polled :: shellHandler where
  "polled =
     snd (RunShell exampleUnmarshal exampleOS exampleHandler
            ''{\"cmd\":\"sleep 5\",\"cwd\":\"\",\"background\":true}'')"

text \<open>The handler after the command that does not exist has been started in the
  background.\<close>

definition polledFailing :: shellHandler where
  "polledFailing =
     snd (RunShell exampleUnmarshal exampleOS exampleHandler
            ''{\"cmd\":\"command_that_does_not_exist\",\"cwd\":\"\",\"background\":true}'')"

text \<open>The answers expected of \<open>get_logs\<close>: no entry for the pid; the command has
  completed, with its exit status (success, or the error of \<open>cmd.Wait()\<close>) and its final
  output; the command is still running, with the output so far.\<close>

definition notFoundMessage :: "int \<Rightarrow> string" where
  "notFoundMessage pid = ''No background command found with PID: '' @ itoa pid"

definition completedMessage :: "int \<Rightarrow> string option \<Rightarrow> string \<Rightarrow> string" where
  "completedMessage pid err output =
     (case err of
        Some msg \<Rightarrow>
          ''Command (PID: '' @ itoa pid @ '') completed with error: '' @ msg
            @ [CHR 0x0A, CHR 0x0A] @ ''Output:'' @ [CHR 0x0A] @ output
      | None \<Rightarrow>
          ''Command (PID: '' @ itoa pid @ '') completed successfully.''
            @ [CHR 0x0A, CHR 0x0A] @ ''Output:'' @ [CHR 0x0A] @ output)"

definition runningMessage :: "int \<Rightarrow> string \<Rightarrow> string" where
  "runningMessage pid output =
     (if output = [] then ''Command (PID: '' @ itoa pid @ '') is still running. No output yet.''
      else ''Command (PID: '' @ itoa pid @ '') is still running.''
             @ [CHR 0x0A, CHR 0x0A] @ ''Current output:'' @ [CHR 0x0A] @ output)"

text \<open>What a sequence of polls of a registered process \<open>p\<close> must answer: "still running"
  with the current output at every instant before completion, "completed" with the final
  output at the first instant that sees the completion, "not found" ever after.\<close>

definition pollResults :: "int \<Rightarrow> process \<Rightarrow> time list \<Rightarrow> (string + ToolCallResult) list" where
  "pollResults pid p ts =
     map (\<lambda>t. Inr \<lparr> Output = runningMessage pid (stdoutAt p t @ stderrAt p t) \<rparr>)
         (takeWhile (\<lambda>t. recvDone p t = None) ts)
     @ (case dropWhile (\<lambda>t. recvDone p t = None) ts of
          [] \<Rightarrow> []
        | t # rest \<Rightarrow>
            Inr \<lparr> Output = completedMessage pid (the (recvDone p t)) (stdoutAt p t @ stderrAt p t) \<rparr>
              # map (\<lambda>t'. Inr \<lparr> Output = notFoundMessage pid \<rparr>) rest)"

section \<open>Suggestions generator\<close>

text \<open>
  \<open>src/pkg/runtime/suggestions_generator.go\<close>.  \<open>json.Unmarshal\<close> into a \<open>[]string\<close> is
  the standard library's; it is a parameter \<open>unmarshal\<close> of the model (\<open>Inl\<close> its error).
  The nested run of the runtime is the parameter \<open>run\<close>: from the user prompt of the
  sub-session to an error or to the last assistant content of the sub-session.
\<close>

record FollowUpSuggestionsConfig =
  Enabled :: bool
  MaxCount :: int
  TimeoutMs :: int

definition defaultMaxCount :: int where "defaultMaxCount = 3"
definition defaultTimeoutMs :: int where "defaultTimeoutMs = 5000"
definition maxResponseTokens :: int where "maxResponseTokens = 300"

datatype Event = FollowUpSuggestions "string list" string

text \<open>\<open>strings.Index(s, "[")\<close> and \<open>strings.LastIndex(s, "]")\<close> for a one-byte pattern:
  the position of the first, or last, occurrence, and \<open>-1\<close> without one.\<close>

definition Index :: "string \<Rightarrow> char \<Rightarrow> int" where
  "Index s c = (if c \<in> set s then int (length (takeWhile (\<lambda>x. x \<noteq> c) s)) else - 1)"

definition LastIndex :: "string \<Rightarrow> char \<Rightarrow> int" where
  "LastIndex s c =
     (if c \<in> set s then int (length s) - 1 - int (length (takeWhile (\<lambda>x. x \<noteq> c) (rev s)))
      else - 1)"

text \<open>The slice \<open>s[i:j]\<close>, for \<open>0 \<le> i \<le> j \<le> len(s)\<close>.\<close>

definition slice :: "string \<Rightarrow> int \<Rightarrow> int \<Rightarrow> string" where
  "slice s i j = take (nat (j - i)) (drop (nat i) s)"

definition cleanResponse :: "string \<Rightarrow> string" where
  "cleanResponse response =
     (let idx = Index response CHR ''[''
      in if idx \<noteq> - 1 then
           (let endIdx = LastIndex response CHR '']''
            in if endIdx > idx then slice response idx (endIdx + 1) else response)
         else response)"

text \<open>The loop over the decoded suggestions, \<open>valid\<close> being the slice built so far.\<close>

fun validLoop :: "int \<Rightarrow> string list \<Rightarrow> string list \<Rightarrow> string list" where
  "validLoop maxCount valid [] = valid"
| "validLoop maxCount valid (s # ss) =
     (if s = [] then validLoop maxCount valid ss
      else if int (length (valid @ [s])) \<ge> maxCount then valid @ [s]
      else validLoop maxCount (valid @ [s]) ss)"

definition parseSuggestions ::
  "(string \<Rightarrow> string + string list) \<Rightarrow> string \<Rightarrow> int \<Rightarrow> string list" where
  "parseSuggestions unmarshal response maxCount =
     (case unmarshal (cleanResponse response) of
        Inl err \<Rightarrow> []
      | Inr suggestions \<Rightarrow> validLoop maxCount [] suggestions)"

definition maxCountOf :: "FollowUpSuggestionsConfig option \<Rightarrow> int" where
  "maxCountOf config =
     (case config of
        None \<Rightarrow> defaultMaxCount
      | Some c \<Rightarrow> if MaxCount c > 0 then MaxCount c else defaultMaxCount)"

definition userPrompt :: "int \<Rightarrow> string \<Rightarrow> string \<Rightarrow> string" where
  "userPrompt maxCount lastUserMsg lastAssistantMsg =
     ''Based on this conversation, suggest '' @ itoa maxCount @ '' follow-up options:''
     @ [CHR 0x0A, CHR 0x0A] @ ''Last user message: '' @ lastUserMsg
     @ [CHR 0x0A, CHR 0x0A] @ ''Last assistant response: '' @ lastAssistantMsg
     @ [CHR 0x0A, CHR 0x0A] @ ''Provide exactly '' @ itoa maxCount @ '' suggestions as a JSON array.''"

text \<open>\<open>generate\<close>: the events sent on the parent run's channel.  \<open>newRuntime\<close> is the error of
  creating the nested runtime, if any.\<close>

definition generate ::
  "FollowUpSuggestionsConfig option \<Rightarrow> (string \<Rightarrow> string + string list) \<Rightarrow> string \<Rightarrow> string
     \<Rightarrow> string option \<Rightarrow> (string \<Rightarrow> string + string) \<Rightarrow> string \<Rightarrow> Event list" where
  "generate config unmarshal lastUserMsg lastAssistantMsg newRuntime run agentName =
     (if lastUserMsg = [] \<or> lastAssistantMsg = [] then []
      else
        (let maxCount = maxCountOf config
         in (case newRuntime of
               Some err \<Rightarrow> []
             | None \<Rightarrow>
                 (case run (userPrompt maxCount lastUserMsg lastAssistantMsg) of
                    Inl err \<Rightarrow> []
                  | Inr response \<Rightarrow>
                      (let suggestions = parseSuggestions unmarshal response maxCount
                       in if length suggestions > 0
                          then [FollowUpSuggestions suggestions agentName] else [])))))"

text \<open>\<open>newSuggestionsGenerator\<close> and \<open>Generate\<close>: nothing is started unless the
  configuration is there and enables the generator.\<close>

definition enabled :: "FollowUpSuggestionsConfig option \<Rightarrow> bool" where
  "enabled config = (case config of None \<Rightarrow> False | Some c \<Rightarrow> Enabled c)"

definition Generate ::
  "FollowUpSuggestionsConfig option \<Rightarrow> (string \<Rightarrow> string + string list) \<Rightarrow> string \<Rightarrow> string
     \<Rightarrow> string option \<Rightarrow> (string \<Rightarrow> string + string) \<Rightarrow> string \<Rightarrow> Event list" where
  "Generate config unmarshal lastUserMsg lastAssistantMsg newRuntime run agentName =
     (if \<not> enabled config then []
      else generate config unmarshal lastUserMsg lastAssistantMsg newRuntime run agentName)"

text \<open>The reply of the spec's scenario, a fenced JSON array wrapped in prose, and the
  decoder on the text extracted from it.\<close>

definition fencedReply :: string where
  "fencedReply =
     ''Here are some ideas:'' @ [CHR 0x0A] @ ''```json'' @ [CHR 0x0A]
     @ ''[\"a\",\"\",\"b\",\"c\",\"d\"]'' @ [CHR 0x0A] @ ''```'' @ [CHR 0x0A] @ ''Hope this helps!''"

definition exampleUnmarshalStrings :: "string \<Rightarrow> string + string list" where
  "exampleUnmarshalStrings s =
     (if s = ''[\"a\",\"\",\"b\",\"c\",\"d\"]'' then Inr [''a'', [], ''b'', ''c'', ''d'']
      else Inl ''invalid character'')"

section \<open>Conversation data\<close>

text \<open>
  \<open>chat.Message\<close>, \<open>tools.ToolCall\<close>, \<open>session.Message\<close>, \<open>session.Item\<close> and
  \<open>session.Session\<close> are declared outside \<open>src/\<close>; the records below have the fields that the
  tests (\<open>src/unnamed/part_002\<close>) and the HTTP handlers (\<open>src/unnamed/part_000\<close>) read and
  write.  The floating-point cost of a message is left out; the type of the permissions is a
  parameter.
\<close>

datatype MessageRole =
  MessageRoleSystem | MessageRoleUser | MessageRoleAssistant | MessageRoleTool

record FunctionCall =
  Name :: string
  Arguments :: string

record ToolCall =
  CallID :: string
  CallType :: string
  Function :: FunctionCall

record Usage =
  UsageInputTokens :: int
  UsageOutputTokens :: int
  UsageCachedInputTokens :: int

record Message =
  Role :: MessageRole
  Content :: string
  ToolCalls :: "ToolCall list"
  ToolCallID :: string
  CacheControl :: bool
  MessageUsage :: "Usage option"
  Model :: string

record AgentMessage =
  AgentName :: string
  Message :: Message

datatype Item = MessageItem AgentMessage | SummaryMarker string

record 'p Session =
  ID :: string
  Title :: string
  CreatedAt :: time
  Messages :: "Item list"
  ToolsApproved :: bool
  InputTokens :: int
  OutputTokens :: int
  WorkingDir :: string
  Permissions :: 'p

section \<open>Importing a session\<close>

text \<open>
  \<open>ExtractSessionFromStore\<close> (\<open>src/pkg/oci/session.go\<close>) and \<open>Server.importSession\<close>
  (\<open>src/unnamed/part_000\<close>).  The content store is its \<open>GetArtifact\<close>; the session store is
  a state of any type with its \<open>AddSession\<close>; \<open>uuid.New().String()\<close> and \<open>time.Now()\<close> are
  values of the environment.  A nil session pointer is \<open>None\<close>.
\<close>

record 'p ExportedSession =
  Version :: string
  ExportedAt :: string
  ExportedData :: "'p Session option"

record ImportSessionRequest =
  Reference :: string

record ImportSessionResponse =
  ImportedID :: string
  ImportedTitle :: string
  ImportedMessage :: string

datatype HTTPError = HTTPError int string

definition StatusOK :: int where "StatusOK = 200"
definition StatusBadRequest :: int where "StatusBadRequest = 400"
definition StatusInternalServerError :: int where "StatusInternalServerError = 500"

definition ExtractSessionFromStore ::
  "(string \<Rightarrow> string + 'p ExportedSession) \<Rightarrow> string \<Rightarrow> (string \<Rightarrow> string + string)
     \<Rightarrow> string + 'p ExportedSession" where
  "ExtractSessionFromStore unmarshal identifier GetArtifact =
     (case GetArtifact identifier of
        Inl err \<Rightarrow> Inl (''getting artifact from store: '' @ err)
      | Inr data \<Rightarrow>
          (case unmarshal data of
             Inl err \<Rightarrow> Inl (''unmarshaling session: '' @ err)
           | Inr exported \<Rightarrow> Inr exported))"

record ('st, 'p) importEnv =
  Bind :: "string + ImportSessionRequest"
  NewStore :: "string + (string \<Rightarrow> string + string)"
  unmarshalExported :: "string \<Rightarrow> string + 'p ExportedSession"
  uuidNew :: string
  timeNow :: time
  AddSession :: "'st \<Rightarrow> 'p Session \<Rightarrow> string + 'st"

definition importSession ::
  "('st, 'p) importEnv \<Rightarrow> 'st \<Rightarrow> (HTTPError + int \<times> ImportSessionResponse) \<times> 'st" where
  "importSession e st =
     (case Bind e of
        Inl err \<Rightarrow> (Inl (HTTPError StatusBadRequest (''invalid request body: '' @ err)), st)
      | Inr req \<Rightarrow>
          if Reference req = [] then
            (Inl (HTTPError StatusBadRequest ''reference is required''), st)
          else
            (case NewStore e of
               Inl err \<Rightarrow>
                 (Inl (HTTPError StatusInternalServerError
                         (''failed to create content store: '' @ err)), st)
             | Inr store \<Rightarrow>
                 (case ExtractSessionFromStore (unmarshalExported e) (Reference req) store of
                    Inl err \<Rightarrow>
                      (Inl (HTTPError StatusInternalServerError
                              (''failed to extract session from store: '' @ err)), st)
                  | Inr exported \<Rightarrow>
                      (case ExportedData exported of
                         None \<Rightarrow>
                           (Inl (HTTPError StatusBadRequest ''invalid session data in artifact''), st)
                       | Some sess \<Rightarrow>
                           (let newSession = sess\<lparr> ID := uuidNew e, CreatedAt := timeNow e \<rparr>
                            in (case AddSession e st newSession of
                                  Inl err \<Rightarrow>
                                    (Inl (HTTPError StatusInternalServerError
                                            (''failed to create imported session: '' @ err)), st)
                                | Inr st' \<Rightarrow>
                                    (Inr (StatusOK,
                                          \<lparr> ImportedID = ID newSession,
                                            ImportedTitle = Title newSession,
                                            ImportedMessage = ''session imported successfully'' \<rparr>),
                                     st')))))))"

text \<open>An in-memory session store, an exported session and an environment to run the
  handler on.\<close>

definition memoryAdd :: "'p Session list \<Rightarrow> 'p Session \<Rightarrow> string + 'p Session list" where
  "memoryAdd st sess = Inr (st @ [sess])"

definition userItem :: "string \<Rightarrow> string \<Rightarrow> Item" where
  "userItem agent text =
     MessageItem \<lparr> AgentName = agent,
       Message = \<lparr> Role = MessageRoleUser, Content = text, ToolCalls = [], ToolCallID = [],
                   CacheControl = False, MessageUsage = None, Model = [] \<rparr> \<rparr>"

definition exportedOriginal :: "unit Session" where
  "exportedOriginal =
     \<lparr> ID = ''original-id'', Title = ''Trip planning'', CreatedAt = 1000,
       Messages = [userItem ''root'' ''hello''], ToolsApproved = False,
       InputTokens = 12, OutputTokens = 34, WorkingDir = ''/work'', Permissions = () \<rparr>"

definition importExample :: "unit Session option \<Rightarrow> (unit Session list, unit) importEnv" where
  "importExample data =
     \<lparr> Bind = Inr \<lparr> Reference = ''user/sessions:trip'' \<rparr>,
       NewStore = Inr (\<lambda>identifier. Inr ''artifact''),
       unmarshalExported =
         (\<lambda>bytes. Inr \<lparr> Version = ''1'', ExportedAt = ''2025-01-01T00:00:00Z'', ExportedData = data \<rparr>),
       uuidNew = ''7b0e5a9c-0000-4000-8000-000000000001'',
       timeNow = 2000,
       AddSession = memoryAdd \<rparr>"

section \<open>Session Context Engine\<close>

text \<open>
  The package \<open>session\<close> (\<open>GetMessages\<close>, \<open>trimMessages\<close>, \<open>AddMessage\<close>) and the package
  \<open>agent\<close> are not under \<open>src/\<close>; only their tests are (\<open>src/unnamed/part_002\<close>).  The
  definitions of this section are modelled from the specification, and the tests are
  translated next to them so that the model can be run against the tests.
\<close>

text \<open>Modelled from the spec: the agent record (\<open>agent.Agent\<close> is missing from \<open>src/\<close>):
  name, instructions, the instructions of each attached tool set, and whether the date is
  added to the context.\<close>

record Agent =
  name :: string
  instruction :: string
  toolSets :: "string list"
  addDate :: bool

text \<open>Modelled from the spec: a system message of a view with the given content (the constructors of messages are missing from \<open>src/\<close>).\<close>

definition systemMessage :: "string \<Rightarrow> Message" where
  "systemMessage text =
     \<lparr> Role = MessageRoleSystem, Content = text, ToolCalls = [], ToolCallID = [],
       CacheControl = False, MessageUsage = None, Model = [] \<rparr>"

text \<open>Modelled from the spec: a role=user message with the given content and no structured field (missing from \<open>src/\<close>), the form of a narrative.\<close>

definition userMessage :: "string \<Rightarrow> Message" where
  "userMessage text =
     \<lparr> Role = MessageRoleUser, Content = text, ToolCalls = [], ToolCallID = [],
       CacheControl = False, MessageUsage = None, Model = [] \<rparr>"

text \<open>Modelled from the spec: \<open>NewAgentMessage\<close> and \<open>AddMessage\<close> (missing from \<open>src/\<close>):
  "appends a tagged item; no other validation".\<close>

definition NewAgentMessage :: "Agent \<Rightarrow> Message \<Rightarrow> AgentMessage" where
  "NewAgentMessage a m = \<lparr> AgentName = name a, Message = m \<rparr>"

text \<open>Modelled from the spec: \<open>AddMessage\<close> (missing from \<open>src/\<close>): the item is appended to the history.\<close>

definition AddMessage :: "Item list \<Rightarrow> AgentMessage \<Rightarrow> Item list" where
  "AddMessage items m = items @ [MessageItem m]"

text \<open>Modelled from the spec: the zones of system messages that open a view (the
  functions building them are missing from \<open>src/\<close>): "always begins with the agent's own
  instructions as a system message, then zero or more toolset-instruction and
  context-specific (e.g., date) system messages".  A tool set without instructions adds
  no message.  The agents of this model have no sub-agents, so the listing of handoff
  targets that an agent with sub-agents also gets is not part of it.\<close>

definition invariantZone :: "Agent \<Rightarrow> Message list" where
  "invariantZone a =
     systemMessage (instruction a) # map systemMessage (filter (\<lambda>i. i \<noteq> []) (toolSets a))"

text \<open>Modelled from the spec: the context-specific zone (missing from \<open>src/\<close>): the date message, when the agent adds the date.\<close>

definition contextZone :: "string \<Rightarrow> Agent \<Rightarrow> Message list" where
  "contextZone today a =
     (if addDate a then [systemMessage (''Today's date: '' @ today)] else [])"

text \<open>Modelled from the spec: the most recent \<open>SummaryMarker\<close> of the history (the scan is
  missing from \<open>src/\<close>): its text and the items stored after it, or \<open>None\<close> when the history
  has no marker.\<close>

fun lastSummary :: "Item list \<Rightarrow> (string \<times> Item list) option" where
  "lastSummary [] = None"
| "lastSummary (it # items) =
     (case lastSummary items of
        Some found \<Rightarrow> Some found
      | None \<Rightarrow> (case it of SummaryMarker text \<Rightarrow> Some (text, items) | MessageItem m \<Rightarrow> None))"

text \<open>Modelled from the spec: the summary zone (missing from \<open>src/\<close>): "one system message Session Summary: <text>" when the history has a marker.\<close>

definition summaryZone :: "Item list \<Rightarrow> Message list" where
  "summaryZone items =
     (case lastSummary items of
        None \<Rightarrow> []
      | Some (text, rest) \<Rightarrow> [systemMessage (''Session Summary: '' @ text)])"

text \<open>Modelled from the spec: the walked items (missing from \<open>src/\<close>): "only items after the marker are walked, else the full history is walked".\<close>

definition walkedItems :: "Item list \<Rightarrow> Item list" where
  "walkedItems items = (case lastSummary items of None \<Rightarrow> items | Some (text, rest) \<Rightarrow> rest)"

text \<open>Modelled from the spec: the cache checkpoint of a zone (missing from \<open>src/\<close>): the last
  message of the zone carries the flag.\<close>

definition markLast :: "Message list \<Rightarrow> Message list" where
  "markLast zone = (if zone = [] then [] else butlast zone @ [(last zone)\<lparr> CacheControl := True \<rparr>])"

text \<open>Modelled from the spec: the rewriting of a walked item (missing from \<open>src/\<close>): "items
  authored by agent pass unchanged, including structured tool calls.  Items authored by any
  other agent are rewritten to role=user narrative text, stripped of structured
  tool-call/tool-call-id fields".  The lines of one foreign assistant item form one message
  (the test expects one message for the text and the tool call together); the spec does not
  say how they are joined, and a line feed is used.  The spec gives no narrative for a
  foreign user or system item: its content is kept.\<close>

definition saidLine :: "string \<Rightarrow> string \<Rightarrow> string" where
  "saidLine author text = ''For context: ['' @ author @ ''] said: '' @ text"

text \<open>Modelled from the spec: the narrative line of a foreign tool call (missing from \<open>src/\<close>).\<close>

definition calledLine :: "string \<Rightarrow> ToolCall \<Rightarrow> string" where
  "calledLine author call =
     ''['' @ author @ ''] called tool `'' @ Name (Function call) @ ''` with parameters: ''
       @ Arguments (Function call)"

text \<open>Modelled from the spec: the narrative of a foreign tool result (missing from \<open>src/\<close>).\<close>

definition resultLine :: "string \<Rightarrow> string" where
  "resultLine text = ''For context: Tool returned result: '' @ text"

text \<open>Modelled from the spec: the lines of one narrative, joined by line feeds (missing from \<open>src/\<close>).\<close>

fun joinLines :: "string list \<Rightarrow> string" where
  "joinLines [] = []"
| "joinLines [l] = l"
| "joinLines (l # l' # ls) = l @ [CHR 0x0A] @ joinLines (l' # ls)"

text \<open>Modelled from the spec: the lines for a foreign assistant item (missing from \<open>src/\<close>): the said-line when it has content, then one line per tool call.\<close>

definition narrativeLines :: "string \<Rightarrow> Message \<Rightarrow> string list" where
  "narrativeLines author m =
     (if Content m \<noteq> [] then [saidLine author (Content m)] else [])
     @ map (calledLine author) (ToolCalls m)"

text \<open>Modelled from the spec: the view of a foreign message (missing from \<open>src/\<close>): a narrative with role user, or nothing for a tool result without content.\<close>

definition foreignView :: "string \<Rightarrow> Message \<Rightarrow> Message list" where
  "foreignView author m =
     (case Role m of
        MessageRoleAssistant \<Rightarrow> [userMessage (joinLines (narrativeLines author m))]
      | MessageRoleTool \<Rightarrow> if Content m = [] then [] else [userMessage (resultLine (Content m))]
      | MessageRoleUser \<Rightarrow> [userMessage (Content m)]
      | MessageRoleSystem \<Rightarrow> [userMessage (Content m)])"

text \<open>Modelled from the spec: the view of one walked item (missing from \<open>src/\<close>): unchanged when the agent is its author, its narrative otherwise.\<close>

definition viewItem :: "string \<Rightarrow> Item \<Rightarrow> Message list" where
  "viewItem agent item =
     (case item of
        SummaryMarker text \<Rightarrow> []
      | MessageItem am \<Rightarrow>
          if AgentName am = agent then [Message am] else foreignView (AgentName am) (Message am))"

text \<open>Modelled from the spec: the system messages that open a view (their construction is
  missing from \<open>src/\<close>): "checkpointing then marks, within the produced view, the last
  message of each present zone (instructions/toolset zone, context-specific zone,
  summary-or-none zone) with the cache-checkpoint flag".  \<open>today\<close> is the date of the
  call.\<close>

definition systemZones :: "string \<Rightarrow> Agent \<Rightarrow> Item list \<Rightarrow> Message list" where
  "systemZones today a items =
     markLast (invariantZone a) @ markLast (contextZone today a) @ markLast (summaryZone items)"

text \<open>Modelled from the spec: \<open>GetMessages\<close> (missing from \<open>src/\<close>): the zones, then the walked items.\<close>

definition GetMessages :: "string \<Rightarrow> Agent \<Rightarrow> Item list \<Rightarrow> Message list" where
  "GetMessages today a items =
     systemZones today a items @ concat (map (viewItem (name a)) (walkedItems items))"

text \<open>The check that the tests \<open>TestTrimMessagesWithToolCalls\<close> and
  \<open>TestGetMessagesWithToolCalls\<close> run over a list of messages: walking the list, the ids of
  the tool calls of assistant messages are collected, and every tool message must refer to
  an id collected before it.\<close>

fun toolCallsBacked :: "string list \<Rightarrow> Message list \<Rightarrow> bool" where
  "toolCallsBacked toolCalls [] = True"
| "toolCallsBacked toolCalls (msg # msgs) =
     (let toolCalls' = (if Role msg = MessageRoleAssistant
                        then toolCalls @ map CallID (ToolCalls msg) else toolCalls)
      in (Role msg = MessageRoleTool \<longrightarrow> ToolCallID msg \<in> set toolCalls')
         \<and> toolCallsBacked toolCalls' msgs)"

text \<open>Modelled from the spec: \<open>trimMessages\<close> (missing from \<open>src/\<close>): "returns the most
  recent maxItems items, except that if truncation would orphan a tool-role item (its owning
  assistant item falls outside the window), the window is extended leftward until every
  tool-call-id referenced within it is backed by its assistant item".  \<open>extendLeft items n\<close>
  is the window that starts at index \<open>n\<close> or, while a tool item of the window is not backed,
  further left.\<close>

fun extendLeft :: "Message list \<Rightarrow> nat \<Rightarrow> Message list" where
  "extendLeft items 0 = items"
| "extendLeft items (Suc n) =
     (if toolCallsBacked [] (drop (Suc n) items) then drop (Suc n) items
      else extendLeft items n)"

text \<open>Modelled from the spec: \<open>trimMessages\<close> (missing from \<open>src/\<close>): the window of the most recent \<open>maxItems\<close> items, extended leftward.\<close>

definition trimMessages :: "Message list \<Rightarrow> int \<Rightarrow> Message list" where
  "trimMessages items maxItems = extendLeft items (nat (int (length items) - maxItems))"

text \<open>Modelled from the spec: an orphaned tool item (the spec's invariant: "every tool-role item's tool-call-id must match a tool-call id emitted by a preceding assistant-role item").\<close>

definition orphaned :: "Message list \<Rightarrow> nat \<Rightarrow> bool" where
  "orphaned msgs j \<longleftrightarrow>
     Role (msgs ! j) = MessageRoleTool
     \<and> \<not> (\<exists>i<j. Role (msgs ! i) = MessageRoleAssistant
                 \<and> ToolCallID (msgs ! j) \<in> CallID ` set (ToolCalls (msgs ! i)))"

text \<open>The sessions, agents and message lists that the tests of \<open>src/unnamed/part_002\<close> build,
  and the two helpers the tests use to read a view: the messages that are not system
  messages, and the indices of the flagged system messages.\<close>

definition plainMessage :: "MessageRole \<Rightarrow> string \<Rightarrow> Message" where
  "plainMessage r text =
     \<lparr> Role = r, Content = text, ToolCalls = [], ToolCallID = [],
       CacheControl = False, MessageUsage = None, Model = [] \<rparr>"

definition functionCall :: "string \<Rightarrow> string \<Rightarrow> string \<Rightarrow> ToolCall" where
  "functionCall callId fname arguments =
     \<lparr> CallID = callId, CallType = ''function'',
       Function = \<lparr> Name = fname, Arguments = arguments \<rparr> \<rparr>"

definition newAgent :: "string \<Rightarrow> string \<Rightarrow> Agent" where
  "newAgent n instr = \<lparr> name = n, instruction = instr, toolSets = [], addDate = False \<rparr>"

definition todoInstructions :: string where
  "todoInstructions = ''## Using the Todo Tools'' @ [CHR 0x0A] @ ''Track every task in the list.''"

definition narrativeSession :: "Item list" where
  "narrativeSession =
     AddMessage (AddMessage (AddMessage (AddMessage []
       (NewAgentMessage (newAgent ''current-agent'' ''you are the current agent'')
          (plainMessage MessageRoleUser ''find info about Go'')))
       (NewAgentMessage (newAgent ''other-agent'' ''you are the other agent'')
          ((plainMessage MessageRoleAssistant ''Let me search for that'')
             \<lparr> ToolCalls := [functionCall ''call-123'' ''web_search'' ''{\"query\": \"Go programming\"}''] \<rparr>)))
       (NewAgentMessage (newAgent ''other-agent'' ''you are the other agent'')
          ((plainMessage MessageRoleTool ''Go is a statically typed language'')
             \<lparr> ToolCallID := ''call-123'' \<rparr>)))
       (NewAgentMessage (newAgent ''other-agent'' ''you are the other agent'')
          (plainMessage MessageRoleAssistant ''Here is what I found about Go''))"

definition toolCallOnlySession :: "Item list" where
  "toolCallOnlySession =
     AddMessage (AddMessage []
       (NewAgentMessage (newAgent ''agent-b'' ''you are agent b'')
          ((plainMessage MessageRoleAssistant [])
             \<lparr> ToolCalls := [functionCall ''call-456'' ''read_file'' ''{\"path\": \"/tmp/test.txt\"}''] \<rparr>)))
       (NewAgentMessage (newAgent ''agent-b'' ''you are agent b'')
          ((plainMessage MessageRoleTool []) \<lparr> ToolCallID := ''call-456'' \<rparr>))"

definition summarySession :: "Item list" where
  "summarySession =
     AddMessage (AddMessage
       ((AddMessage (AddMessage []
          (NewAgentMessage (newAgent [] []) (plainMessage MessageRoleUser ''first message'')))
          (NewAgentMessage (newAgent [] []) (plainMessage MessageRoleAssistant ''first response'')))
        @ [SummaryMarker ''This is a summary of the conversation so far''])
       (NewAgentMessage (newAgent [] []) (plainMessage MessageRoleUser ''message after summary'')))
       (NewAgentMessage (newAgent [] []) (plainMessage MessageRoleAssistant ''response after summary''))"

definition todoAgent :: Agent where
  "todoAgent = (newAgent ''root'' ''instructions'')\<lparr> toolSets := [todoInstructions], addDate := True \<rparr>"

definition conversation :: "Message list \<Rightarrow> Message list" where
  "conversation view = filter (\<lambda>m. Role m \<noteq> MessageRoleSystem) view"

definition checkpointIndices :: "Message list \<Rightarrow> nat list" where
  "checkpointIndices view =
     filter (\<lambda>i. Role (view ! i) = MessageRoleSystem \<and> CacheControl (view ! i)) [0..<length view]"

text \<open>The assertions of \<open>TestGetMessages_CacheControlWithSummary\<close> on the view it gets
  from the code: two flagged system messages, the first with the tool set instructions,
  the second with the date.\<close>

definition TestCacheControlWithSummary :: "Message list \<Rightarrow> bool" where
  "TestCacheControlWithSummary messages \<longleftrightarrow>
     length (checkpointIndices messages) = 2
     \<and> Contains (Content (messages ! (checkpointIndices messages ! 0))) ''Using the Todo Tools''
     \<and> Contains (Content (messages ! (checkpointIndices messages ! 1))) ''Today's date''"

text \<open>A history in which another agent is the author of a user item and of a system
  item.\<close>

definition foreignUserSession :: "Item list" where
  "foreignUserSession =
     AddMessage (AddMessage []
       (NewAgentMessage (newAgent ''other-agent'' ''you are the other agent'')
          (plainMessage MessageRoleUser ''What about Rust?'')))
       (NewAgentMessage (newAgent ''other-agent'' ''you are the other agent'')
          (plainMessage MessageRoleSystem ''Answer briefly''))"

definition trimExample :: "Message list" where
  "trimExample =
     [plainMessage MessageRoleUser ''first message'',
      (plainMessage MessageRoleAssistant ''response with tool'')
        \<lparr> ToolCalls := [functionCall ''tool1'' [] []] \<rparr>,
      (plainMessage MessageRoleTool ''tool result'') \<lparr> ToolCallID := ''tool1'' \<rparr>,
      plainMessage MessageRoleUser ''second message'',
      (plainMessage MessageRoleAssistant ''another response'')
        \<lparr> ToolCalls := [functionCall ''tool2'' [] []] \<rparr>,
      (plainMessage MessageRoleTool ''tool result 2'') \<lparr> ToolCallID := ''tool2'' \<rparr>]"

text \<open>The index at which the window of the most recent \<open>maxItems\<close> items starts.\<close>

definition windowStart :: "Message list \<Rightarrow> int \<Rightarrow> nat" where
  "windowStart items maxItems = nat (int (length items) - maxItems)"

section \<open>The superseded push-style shell tool\<close>

text \<open>
  \<open>shellHandler.RunShell\<close> of \<open>src/pkg/tools/builtin/shell.go\<close>: no background flag, no
  table, a quick timeout of 30 seconds, and on timeout a result that carries the partial
  output (a goroutine then streams the rest to a callback, which is outside this model).
\<close>

definition quickCommandTimeoutStreaming :: time where
  "quickCommandTimeoutStreaming = 30 * 1000000000"

definition streamingMessage :: "int \<Rightarrow> string \<Rightarrow> string" where
  "streamingMessage pid partialOutput =
     ''Command is still running in background (PID: '' @ itoa pid @ '')...''
     @ [CHR 0x0A, CHR 0x0A] @ ''Partial output:'' @ [CHR 0x0A] @ partialOutput
     @ [CHR 0x0A, CHR 0x0A] @ ''[Streaming additional output as it becomes available...]''"

definition RunShellStreaming ::
  "(string \<Rightarrow> string + RunShellArgs) \<Rightarrow> os \<Rightarrow> shellHandler \<Rightarrow> string
     \<Rightarrow> (string + ToolCallResult) \<times> shellHandler" where
  "RunShellStreaming unmarshal e h arguments =
     (case unmarshal arguments of
        Inl err \<Rightarrow> (Inl (''invalid arguments: '' @ err), h)
      | Inr params \<Rightarrow>
          (case start e (buildCmd h e params) of
             StdoutPipeError err \<Rightarrow>
               (Inr \<lparr> Output = ''Error creating stdout pipe: '' @ err \<rparr>, h)
           | StderrPipeError err \<Rightarrow>
               (Inr \<lparr> Output = ''Error creating stderr pipe: '' @ err \<rparr>, h)
           | StartError err \<Rightarrow>
               (Inr \<lparr> Output = ''Error starting command: '' @ err \<rparr>, h)
           | Started p \<Rightarrow>
               (let h1 = h\<lparr> processes := processes h @ [Some (Pid p)] \<rparr>;
                    finish = (\<lambda>s. s\<lparr> processes := untrack (Pid p) (processes s) \<rparr>)
                in (case selectDone (selectPrefersDone e) p (now e) quickCommandTimeoutStreaming of
                      (t, Some err) \<Rightarrow>
                        (let output = stdoutAt p t @ stderrAt p t
                         in (case err of
                               Some msg \<Rightarrow>
                                 (Inr \<lparr> Output = ''Error executing command: '' @ msg
                                          @ [CHR 0x0A] @ ''Output: '' @ output \<rparr>, finish h1)
                             | None \<Rightarrow>
                                 (Inr \<lparr> Output = ''Output: '' @ output \<rparr>, finish h1)))
                    | (t, None) \<Rightarrow>
                        (let partialOutput = stdoutAt p t @ stderrAt p t
                         in (Inr \<lparr> Output = streamingMessage (Pid p) partialOutput \<rparr>,
                             finish h1))))))"

section \<open>Properties of the shell tool\<close>

lemmas shell_example_defs = exampleUnmarshal_def exampleOS_def exampleHandler_def
  NewShellHandler_def sleeper_def server_def failing_def buildCmd_def selectDone_def
  quickCommandTimeout_def

lemmas format_defs = backgroundMessage_def notFoundMessage_def completedMessage_def
  runningMessage_def itoa_def digits.simps digit_char_def

lemma untrack_append_fresh:
  "Some pid \<notin> set ps \<Longrightarrow> untrack pid (ps @ [Some pid]) = ps"
  by (induction ps) (auto split: option.splits)

lemma killAll_set:
  "set (killAll w ps) = (\<lambda>pid. if w then ProcessKill pid else GroupSIGTERM pid) ` {pid. Some pid \<in> set ps}"
  by (induction ps) (auto split: option.splits)

lemma Stop_signals_tracked:
  "set (fst (Stop e h)) = (\<lambda>pid. if windows e then ProcessKill pid else GroupSIGTERM pid) ` {pid. Some pid \<in> set (processes h)}
   \<and> processes (snd (Stop e h)) = []
   \<and> backgroundCommands (snd (Stop e h)) = backgroundCommands h"
  by (simp add: Stop_def killAll_set)

lemma RunShell_untracks_on_return:
  assumes "unmarshal arguments = Inr params"
    and "start e (buildCmd h e params) = Started p"
    and "Some (Pid p) \<notin> set (processes h)"
  shows "processes (snd (RunShell unmarshal e h arguments)) = processes h"
  using assms
  by (simp add: RunShell_def Let_def untrack_append_fresh split: prod.splits option.splits)

lemma Stop_after_RunShell_sends_nothing_to_started_process:
  assumes "unmarshal arguments = Inr params"
    and "start e (buildCmd h e params) = Started p"
    and "Some (Pid p) \<notin> set (processes h)"
  shows "ProcessKill (Pid p) \<notin> set (fst (Stop e' (snd (RunShell unmarshal e h arguments))))
       \<and> GroupSIGTERM (Pid p) \<notin> set (fst (Stop e' (snd (RunShell unmarshal e h arguments))))"
proof -
  have "processes (snd (RunShell unmarshal e h arguments)) = processes h"
    using assms by (rule RunShell_untracks_on_return)
  with assms(3) show ?thesis
    by (auto simp: Stop_def killAll_set)
qed

lemma RunShellStreaming_timeout_returns_partial_output:
  assumes "unmarshal arguments = Inr params"
    and "start e (buildCmd h e params) = Started p"
    and "doneAt p = None"
  shows "RunShellStreaming unmarshal e h arguments =
           (Inr \<lparr> Output = streamingMessage (Pid p)
                     (stdoutAt p (now e + quickCommandTimeoutStreaming)
                      @ stderrAt p (now e + quickCommandTimeoutStreaming)) \<rparr>,
            h\<lparr> processes := untrack (Pid p) (processes h @ [Some (Pid p)]) \<rparr>)"
  using assms by (simp add: RunShellStreaming_def Let_def selectDone_def)

lemma GetLogs_absent:
  "unmarshal arguments = Inr params \<Longrightarrow> backgroundCommands h (PID params) = None \<Longrightarrow>
   GetLogs unmarshal t h arguments = (Inr \<lparr> Output = notFoundMessage (PID params) \<rparr>, h)"
  by (simp add: GetLogs_def notFoundMessage_def)

lemma pollAll_absent:
  "unmarshal arguments = Inr params \<Longrightarrow> backgroundCommands h (PID params) = None \<Longrightarrow>
   pollAll unmarshal h arguments ts = (map (\<lambda>t. Inr \<lparr> Output = notFoundMessage (PID params) \<rparr>) ts, h)"
  by (induction ts) (simp_all add: GetLogs_absent)

lemma GetLogs_running:
  "unmarshal arguments = Inr params \<Longrightarrow> backgroundCommands h (PID params) = Some p \<Longrightarrow>
   recvDone p t = None \<Longrightarrow>
   GetLogs unmarshal t h arguments =
     (Inr \<lparr> Output = runningMessage (PID params) (stdoutAt p t @ stderrAt p t) \<rparr>, h)"
  by (simp add: GetLogs_def runningMessage_def Let_def)

lemma GetLogs_completed:
  "unmarshal arguments = Inr params \<Longrightarrow> backgroundCommands h (PID params) = Some p \<Longrightarrow>
   recvDone p t = Some err \<Longrightarrow>
   GetLogs unmarshal t h arguments =
     (Inr \<lparr> Output = completedMessage (PID params) err (stdoutAt p t @ stderrAt p t) \<rparr>,
      h\<lparr> backgroundCommands := (backgroundCommands h)(PID params := None) \<rparr>)"
  by (simp add: GetLogs_def completedMessage_def Let_def split: option.splits)

lemma pollAll_present:
  "unmarshal arguments = Inr params \<Longrightarrow> backgroundCommands h (PID params) = Some p \<Longrightarrow>
   pollAll unmarshal h arguments ts =
     (pollResults (PID params) p ts,
      if \<forall>t \<in> set ts. recvDone p t = None then h
      else h\<lparr> backgroundCommands := (backgroundCommands h)(PID params := None) \<rparr>)"
proof (induction ts)
  case Nil
  then show ?case by (simp add: pollResults_def)
next
  case (Cons t ts)
  show ?case
  proof (cases "recvDone p t")
    case None
    with Cons show ?thesis
      by (simp add: GetLogs_running pollResults_def)
  next
    case (Some err)
    let ?h' = "h\<lparr> backgroundCommands := (backgroundCommands h)(PID params := None) \<rparr>"
    have "backgroundCommands ?h' (PID params) = None" by simp
    then have "pollAll unmarshal ?h' arguments ts =
        (map (\<lambda>t. Inr \<lparr> Output = notFoundMessage (PID params) \<rparr>) ts, ?h')"
      using Cons.prems(1) by (intro pollAll_absent)
    then show ?thesis using Some Cons.prems
      by (simp add: GetLogs_completed pollResults_def)
  qed
qed

text \<open>
  Claim C2.  For a pid registered in the background-command table, \<open>get_logs\<close> is repeatable
  while the process runs: it answers with the output accumulated so far and leaves the
  handler as it was.  The first call that sees the completion answers with the final
  output and the exit status (that the command completed successfully, or the error it
  completed with) and removes the entry; every later call answers that no background
  command was found.  Over any sequence of polls the answers are therefore
  "running" up to the first instant that sees the completion, one "completed", and "not
  found" from then on, and the entry is present after the polls exactly when none of them
  saw the completion.
\<close>

theorem get_logs_repeatable_then_terminal_once:
  assumes "unmarshal arguments = Inr params"
    and "backgroundCommands h (PID params) = Some p"
  shows "(recvDone p t = None \<longrightarrow>
            GetLogs unmarshal t h arguments =
              (Inr \<lparr> Output = runningMessage (PID params) (stdoutAt p t @ stderrAt p t) \<rparr>, h))
       \<and> (\<forall>err. recvDone p t = Some err \<longrightarrow>
            GetLogs unmarshal t h arguments =
              (Inr \<lparr> Output = completedMessage (PID params) err (stdoutAt p t @ stderrAt p t) \<rparr>,
               h\<lparr> backgroundCommands := (backgroundCommands h)(PID params := None) \<rparr>)
            \<and> (\<forall>ts. pollAll unmarshal (snd (GetLogs unmarshal t h arguments)) arguments ts =
                  (map (\<lambda>t'. Inr \<lparr> Output = notFoundMessage (PID params) \<rparr>) ts,
                   snd (GetLogs unmarshal t h arguments))))
       \<and> fst (pollAll unmarshal h arguments ts) = pollResults (PID params) p ts
       \<and> backgroundCommands (snd (pollAll unmarshal h arguments ts)) (PID params) =
            (if \<forall>t \<in> set ts. recvDone p t = None then Some p else None)
       \<and> (recvDone p t = Some None \<longrightarrow>
            fst (GetLogs unmarshal t h arguments) =
              Inr \<lparr> Output = ''Command (PID: '' @ itoa (PID params) @ '') completed successfully.''
                        @ [CHR 0x0A, CHR 0x0A] @ ''Output:'' @ [CHR 0x0A]
                        @ stdoutAt p t @ stderrAt p t \<rparr>)
       \<and> (\<forall>msg. recvDone p t = Some (Some msg) \<longrightarrow>
            fst (GetLogs unmarshal t h arguments) =
              Inr \<lparr> Output = ''Command (PID: '' @ itoa (PID params) @ '') completed with error: ''
                        @ msg @ [CHR 0x0A, CHR 0x0A] @ ''Output:'' @ [CHR 0x0A]
                        @ stdoutAt p t @ stderrAt p t \<rparr>)
       \<and> (recvDone p t = None \<and> stdoutAt p t @ stderrAt p t = [] \<longrightarrow>
            fst (GetLogs unmarshal t h arguments) =
              Inr \<lparr> Output = ''Command (PID: '' @ itoa (PID params)
                        @ '') is still running. No output yet.'' \<rparr>)
       \<and> (recvDone p t = None \<and> stdoutAt p t @ stderrAt p t \<noteq> [] \<longrightarrow>
            fst (GetLogs unmarshal t h arguments) =
              Inr \<lparr> Output = ''Command (PID: '' @ itoa (PID params) @ '') is still running.''
                        @ [CHR 0x0A, CHR 0x0A] @ ''Current output:'' @ [CHR 0x0A]
                        @ stdoutAt p t @ stderrAt p t \<rparr>)
       \<and> (\<forall>h'::shellHandler. backgroundCommands h' (PID params) = None \<longrightarrow>
            GetLogs unmarshal t h' arguments =
              (Inr \<lparr> Output = ''No background command found with PID: '' @ itoa (PID params) \<rparr>, h'))"
proof (intro conjI allI impI)
  assume "recvDone p t = None"
  then show "GetLogs unmarshal t h arguments =
      (Inr \<lparr> Output = runningMessage (PID params) (stdoutAt p t @ stderrAt p t) \<rparr>, h)"
    using assms by (simp add: GetLogs_running)
next
  fix err assume d: "recvDone p t = Some err"
  then show "GetLogs unmarshal t h arguments =
      (Inr \<lparr> Output = completedMessage (PID params) err (stdoutAt p t @ stderrAt p t) \<rparr>,
       h\<lparr> backgroundCommands := (backgroundCommands h)(PID params := None) \<rparr>)"
    using assms by (simp add: GetLogs_completed)
next
  fix err ts assume d: "recvDone p t = Some err"
  have g: "snd (GetLogs unmarshal t h arguments) =
      h\<lparr> backgroundCommands := (backgroundCommands h)(PID params := None) \<rparr>"
    using assms d by (simp add: GetLogs_completed)
  have "backgroundCommands (snd (GetLogs unmarshal t h arguments)) (PID params) = None"
    by (simp add: g)
  then show "pollAll unmarshal (snd (GetLogs unmarshal t h arguments)) arguments ts =
      (map (\<lambda>t'. Inr \<lparr> Output = notFoundMessage (PID params) \<rparr>) ts,
       snd (GetLogs unmarshal t h arguments))"
    using assms(1) by (intro pollAll_absent)
next
  show "fst (pollAll unmarshal h arguments ts) = pollResults (PID params) p ts"
    using assms by (simp add: pollAll_present)
next
  show "backgroundCommands (snd (pollAll unmarshal h arguments ts)) (PID params) =
      (if \<forall>t \<in> set ts. recvDone p t = None then Some p else None)"
    using assms by (simp add: pollAll_present)
next
  assume "recvDone p t = Some None"
  then show "fst (GetLogs unmarshal t h arguments) =
      Inr \<lparr> Output = ''Command (PID: '' @ itoa (PID params) @ '') completed successfully.''
                @ [CHR 0x0A, CHR 0x0A] @ ''Output:'' @ [CHR 0x0A]
                @ stdoutAt p t @ stderrAt p t \<rparr>"
    using assms by (simp add: GetLogs_def)
next
  fix msg assume "recvDone p t = Some (Some msg)"
  then show "fst (GetLogs unmarshal t h arguments) =
      Inr \<lparr> Output = ''Command (PID: '' @ itoa (PID params) @ '') completed with error: ''
                @ msg @ [CHR 0x0A, CHR 0x0A] @ ''Output:'' @ [CHR 0x0A]
                @ stdoutAt p t @ stderrAt p t \<rparr>"
    using assms by (simp add: GetLogs_def)
next
  assume "recvDone p t = None \<and> stdoutAt p t @ stderrAt p t = []"
  then show "fst (GetLogs unmarshal t h arguments) =
      Inr \<lparr> Output = ''Command (PID: '' @ itoa (PID params)
                @ '') is still running. No output yet.'' \<rparr>"
    using assms by (simp add: GetLogs_def)
next
  assume "recvDone p t = None \<and> stdoutAt p t @ stderrAt p t \<noteq> []"
  then show "fst (GetLogs unmarshal t h arguments) =
      Inr \<lparr> Output = ''Command (PID: '' @ itoa (PID params) @ '') is still running.''
                @ [CHR 0x0A, CHR 0x0A] @ ''Current output:'' @ [CHR 0x0A]
                @ stdoutAt p t @ stderrAt p t \<rparr>"
    using assms by (simp add: GetLogs_def Let_def)
next
  fix h' :: shellHandler assume "backgroundCommands h' (PID params) = None"
  then show "GetLogs unmarshal t h' arguments =
      (Inr \<lparr> Output = ''No background command found with PID: '' @ itoa (PID params) \<rparr>, h')"
    using assms(1) by (simp add: GetLogs_def)
qed

theorem get_logs_repeatable_then_terminal_once_witness:
  "fst (pollAll decodePid polled ''{\"pid\":4242}'' [1, 2000000000, 6000000000, 7000000000])
     = [Inr \<lparr> Output = ''Command (PID: 4242) is still running. No output yet.'' \<rparr>,
        Inr \<lparr> Output = ''Command (PID: 4242) is still running.'' @ [CHR 0x0A, CHR 0x0A]
                 @ ''Current output:'' @ [CHR 0x0A] @ ''hello'' \<rparr>,
        Inr \<lparr> Output = ''Command (PID: 4242) completed successfully.'' @ [CHR 0x0A, CHR 0x0A]
                 @ ''Output:'' @ [CHR 0x0A] @ ''hello'' \<rparr>,
        Inr \<lparr> Output = ''No background command found with PID: 4242'' \<rparr>]
   \<and> fst (pollAll decodePid polledFailing ''{\"pid\":4444}'' [30000000, 40000000])
     = [Inr \<lparr> Output = ''Command (PID: 4444) completed with error: exit status 127''
                 @ [CHR 0x0A, CHR 0x0A] @ ''Output:'' @ [CHR 0x0A]
                 @ ''sh: command_that_does_not_exist: not found'' \<rparr>,
        Inr \<lparr> Output = ''No background command found with PID: 4444'' \<rparr>]
   \<and> fst (GetLogs decodePid 30000000 polledFailing ''{\"pid\":4444}'')
     = Inr \<lparr> Output = ''Command (PID: 4444) completed with error: exit status 127''
                 @ [CHR 0x0A, CHR 0x0A] @ ''Output:'' @ [CHR 0x0A]
                 @ ''sh: command_that_does_not_exist: not found'' \<rparr>"
  using get_logs_repeatable_then_terminal_once
          [of decodePid "''{\"pid\":4242}''" "\<lparr> PID = 4242 \<rparr>" polled sleeper
              0 "[1, 2000000000, 6000000000, 7000000000]"]
        get_logs_repeatable_then_terminal_once
          [of decodePid "''{\"pid\":4444}''" "\<lparr> PID = 4444 \<rparr>" polledFailing failing
              30000000 "[30000000, 40000000]"]
  by (simp add: decodePid_def polled_def polledFailing_def RunShell_def GetLogs_def Let_def
      shell_example_defs pollResults_def recvDone_def format_defs)

text \<open>
  Claim C7.  A shell call whose arguments decode never fails at the call level: it returns
  a result, and a pipe that cannot be created, a command that cannot be started and a
  command that exits with an error each give a result whose text describes the failure.
  Arguments that do not decode give the hard error "invalid arguments", no result, and
  leave the handler unchanged.
\<close>

theorem RunShell_hard_error_only_for_malformed_arguments:
  "(\<forall>err. unmarshal arguments = Inl err \<longrightarrow>
       RunShell unmarshal e h arguments = (Inl (''invalid arguments: '' @ err), h))
   \<and> (\<forall>params. unmarshal arguments = Inr params \<longrightarrow>
        (\<exists>r. fst (RunShell unmarshal e h arguments) = Inr r)
      \<and> (\<forall>err. start e (buildCmd h e params) = StdoutPipeError err \<longrightarrow>
            fst (RunShell unmarshal e h arguments)
              = Inr \<lparr> Output = ''Error creating stdout pipe: '' @ err \<rparr>)
      \<and> (\<forall>err. start e (buildCmd h e params) = StderrPipeError err \<longrightarrow>
            fst (RunShell unmarshal e h arguments)
              = Inr \<lparr> Output = ''Error creating stderr pipe: '' @ err \<rparr>)
      \<and> (\<forall>err. start e (buildCmd h e params) = StartError err \<longrightarrow>
            fst (RunShell unmarshal e h arguments)
              = Inr \<lparr> Output = ''Error starting command: '' @ err \<rparr>)
      \<and> (\<forall>p t msg. start e (buildCmd h e params) = Started p \<and> \<not> Background params
              \<and> selectDone (selectPrefersDone e) p (now e) quickCommandTimeout = (t, Some (Some msg)) \<longrightarrow>
            fst (RunShell unmarshal e h arguments)
              = Inr \<lparr> Output = ''Error executing command: '' @ msg @ [CHR 0x0A]
                        @ ''Output: '' @ stdoutAt p t @ stderrAt p t \<rparr>))"
  by (auto simp: RunShell_def Let_def split: launch.splits prod.splits option.splits sum.splits)

theorem RunShell_hard_error_only_for_malformed_arguments_witness:
  "RunShell exampleUnmarshal exampleOS exampleHandler ''{invalid json''
     = (Inl ''invalid arguments: invalid character'', exampleHandler)
   \<and> fst (RunShell exampleUnmarshal exampleOS exampleHandler
            ''{\"cmd\":\"command_that_does_not_exist\",\"cwd\":\"\"}'')
     = Inr \<lparr> Output = ''Error executing command: exit status 127'' @ [CHR 0x0A]
               @ ''Output: sh: command_that_does_not_exist: not found'' \<rparr>"
  using RunShell_hard_error_only_for_malformed_arguments
          [of exampleUnmarshal "''{invalid json''" exampleOS exampleHandler]
        RunShell_hard_error_only_for_malformed_arguments
          [of exampleUnmarshal "''{\"cmd\":\"command_that_does_not_exist\",\"cwd\":\"\"}''"
              exampleOS exampleHandler]
  by (simp add: shell_example_defs)

text \<open>
  Claim C3, as amended.  When the caller asks for background mode, or the process has not
  finished when the quick timeout of 10 seconds expires, the process is registered in the
  background-command table under its pid and the call returns a message that carries the
  pid and points to \<open>get_logs\<close>; the output accumulated so far is not part of the result.
  When background mode is not asked for and the process finishes before the timeout, the
  call returns the combined output (standard output, then standard error), preceded by the
  error of the command if it failed, and the table is unchanged.
\<close>

theorem RunShell_backgrounds_or_returns_output:
  assumes "unmarshal arguments = Inr params"
    and "start e (buildCmd h e params) = Started p"
  shows "(Background params \<or> doneAt p = None
            \<or> (\<exists>d err. doneAt p = Some (d, err) \<and> now e + quickCommandTimeout < d) \<longrightarrow>
           fst (RunShell unmarshal e h arguments) = Inr \<lparr> Output = backgroundMessage (Pid p) \<rparr>
         \<and> backgroundCommands (snd (RunShell unmarshal e h arguments))
             = (backgroundCommands h)(Pid p \<mapsto> p))
       \<and> (\<forall>d err. \<not> Background params \<and> doneAt p = Some (d, err)
              \<and> d < now e + quickCommandTimeout \<longrightarrow>
           fst (RunShell unmarshal e h arguments)
             = Inr \<lparr> Output =
                 (case err of
                    None \<Rightarrow> ''Output: ''
                  | Some msg \<Rightarrow> ''Error executing command: '' @ msg @ [CHR 0x0A] @ ''Output: '')
                 @ stdoutAt p (max d (now e)) @ stderrAt p (max d (now e)) \<rparr>
         \<and> backgroundCommands (snd (RunShell unmarshal e h arguments)) = backgroundCommands h)
       \<and> quickCommandTimeout = 10 * 1000000000"
  using assms
  by (auto simp: RunShell_def Let_def selectDone_def quickCommandTimeout_def
           split: prod.splits option.splits)

theorem RunShell_backgrounds_or_returns_output_witness:
  "fst (RunShell exampleUnmarshal exampleOS exampleHandler ''{\"cmd\":\"serve\",\"cwd\":\"\"}'')
     = Inr \<lparr> Output = backgroundMessage 4343 \<rparr>
   \<and> map_option Pid (backgroundCommands
         (snd (RunShell exampleUnmarshal exampleOS exampleHandler ''{\"cmd\":\"serve\",\"cwd\":\"\"}'')) 4343)
       = Some 4343
   \<and> fst (RunShell exampleUnmarshal exampleOS exampleHandler ''{\"cmd\":\"sleep 5\",\"cwd\":\"\"}'')
     = Inr \<lparr> Output = ''Output: hello'' \<rparr>
   \<and> backgroundCommands
         (snd (RunShell exampleUnmarshal exampleOS exampleHandler ''{\"cmd\":\"sleep 5\",\"cwd\":\"\"}''))
       = Map.empty"
  using RunShell_backgrounds_or_returns_output
          [of exampleUnmarshal "''{\"cmd\":\"serve\",\"cwd\":\"\"}''"
              "\<lparr> Cmd = ''serve'', Cwd = [], Background = False \<rparr>" exampleOS exampleHandler server]
        RunShell_backgrounds_or_returns_output
          [of exampleUnmarshal "''{\"cmd\":\"sleep 5\",\"cwd\":\"\"}''"
              "\<lparr> Cmd = ''sleep 5'', Cwd = [], Background = False \<rparr>" exampleOS exampleHandler sleeper]
  by (simp add: shell_example_defs)

text \<open>
  Claim C3 as stated fails: a command that has written \<open>listening\<close> and is still running when
  the quick timeout expires is moved to the background, and the result of the call is the
  message with the pid, in which the accumulated output does not appear.
\<close>

theorem RunShell_background_result_omits_output:
  "stdoutAt server (now exampleOS + quickCommandTimeout)
     @ stderrAt server (now exampleOS + quickCommandTimeout) = ''listening''
   \<and> fst (RunShell exampleUnmarshal exampleOS exampleHandler ''{\"cmd\":\"serve\",\"cwd\":\"\"}'')
     = Inr \<lparr> Output = ''Command is running in background (PID: 4343). Use get_logs tool with this PID to retrieve output.'' \<rparr>
   \<and> \<not> Contains ''Command is running in background (PID: 4343). Use get_logs tool with this PID to retrieve output.'' ''listening''"
  by (simp add: shell_example_defs RunShell_def format_defs)

text \<open>
  Claim C6.  \<open>Stop\<close> signals every process of the registry (its process group on Unix, the
  process itself on Windows), clears the registry and leaves the background-command table
  as it is (lemma \<open>Stop_signals_tracked\<close>).  The claim also says that the process of a
  command moved to the background is signalled by \<open>Stop\<close>.  It is not: the deferred function
  of \<open>RunShell\<close> takes the process out of the registry when \<open>RunShell\<close> returns, also when it
  returns because the command went to the background (lemma \<open>RunShell_untracks_on_return\<close>).
  After \<open>sleep 5\<close> is started with \<open>background = true\<close>, the process 4242 is in the table
  and still running, the registry is empty, and \<open>Stop\<close> sends no signal.
\<close>

theorem Stop_misses_backgrounded_process:
  "fst (RunShell exampleUnmarshal exampleOS exampleHandler
          ''{\"cmd\":\"sleep 5\",\"cwd\":\"\",\"background\":true}'')
     = Inr \<lparr> Output = ''Command is running in background (PID: 4242). Use get_logs tool with this PID to retrieve output.'' \<rparr>
   \<and> map_option Pid (backgroundCommands (snd (RunShell exampleUnmarshal exampleOS exampleHandler
          ''{\"cmd\":\"sleep 5\",\"cwd\":\"\",\"background\":true}'')) 4242) = Some 4242
   \<and> recvDone sleeper (now exampleOS) = None
   \<and> processes (snd (RunShell exampleUnmarshal exampleOS exampleHandler
          ''{\"cmd\":\"sleep 5\",\"cwd\":\"\",\"background\":true}'')) = []
   \<and> fst (Stop exampleOS (snd (RunShell exampleUnmarshal exampleOS exampleHandler
          ''{\"cmd\":\"sleep 5\",\"cwd\":\"\",\"background\":true}''))) = []"
  by (simp add: shell_example_defs RunShell_def Stop_def recvDone_def format_defs)

section \<open>Properties of the suggestions generator\<close>

lemma takeWhile_until:
  "c \<notin> set xs \<Longrightarrow> takeWhile (\<lambda>x. x \<noteq> c) (xs @ c # ys) = xs"
  by (induction xs) auto

lemma Index_first:
  "c \<notin> set pre \<Longrightarrow> Index (pre @ c # rest) c = int (length pre)"
  by (simp add: Index_def takeWhile_until)

lemma LastIndex_last:
  "c \<notin> set post \<Longrightarrow> LastIndex (front @ c # post) c = int (length front)"
proof -
  assume a: "c \<notin> set post"
  have "takeWhile (\<lambda>x. x \<noteq> c) (rev post @ c # rev front) = rev post"
    using a by (intro takeWhile_until) simp
  then show ?thesis by (simp add: LastIndex_def)
qed

lemma cleanResponse_brackets:
  assumes "CHR ''['' \<notin> set pre" and "CHR '']'' \<notin> set post"
  shows "cleanResponse (pre @ ''['' @ mid @ '']'' @ post) = ''['' @ mid @ '']''"
proof -
  have i: "Index (pre @ ''['' @ mid @ '']'' @ post) CHR ''['' = int (length pre)"
    using assms(1) Index_first [of "CHR ''[''" pre "mid @ '']'' @ post"] by simp
  have j: "LastIndex (pre @ ''['' @ mid @ '']'' @ post) CHR '']'' = int (length pre) + 1 + int (length mid)"
    using assms(2) LastIndex_last [of "CHR '']''" post "pre @ ''['' @ mid"] by simp
  have n: "nat (2 + int (length mid)) = Suc (Suc (length mid))" by simp
  show ?thesis
    unfolding cleanResponse_def Let_def i j
    by (simp add: slice_def n)
qed

lemma validLoop_take:
  "0 < n \<Longrightarrow> int (length valid) < n \<Longrightarrow>
   validLoop n valid xs = take (nat n) (valid @ filter (\<lambda>s. s \<noteq> []) xs)"
proof (induction xs arbitrary: valid)
  case Nil
  then show ?case by simp
next
  case (Cons x xs)
  show ?case
  proof (cases "x = []")
    case True
    with Cons show ?thesis by simp
  next
    case False
    show ?thesis
    proof (cases "int (length (valid @ [x])) \<ge> n")
      case True
      with Cons.prems have "nat n = Suc (length valid)" by simp
      with True False show ?thesis by simp
    next
      case False2: False
      then have "int (length (valid @ [x])) < n" by simp
      from Cons.IH [OF Cons.prems(1) this] False False2 show ?thesis by simp
    qed
  qed
qed

lemma validLoop_nonpositive:
  "n \<le> 0 \<Longrightarrow> validLoop n [] xs = take 1 (filter (\<lambda>s. s \<noteq> []) xs)"
  by (induction xs) auto

lemma cleanResponse_without_brackets:
  "CHR ''['' \<notin> set response \<or> LastIndex response CHR '']'' \<le> Index response CHR ''['' \<Longrightarrow>
   cleanResponse response = response"
  by (auto simp: cleanResponse_def Let_def Index_def)

lemma maxCountOf_pos: "0 < maxCountOf config"
  by (simp add: maxCountOf_def defaultMaxCount_def split: option.splits)

lemma parseSuggestions_eq:
  "0 < n \<Longrightarrow> parseSuggestions unmarshal response n =
     (case unmarshal (cleanResponse response) of
        Inl err \<Rightarrow> []
      | Inr xs \<Rightarrow> take (nat n) (filter (\<lambda>s. s \<noteq> []) xs))"
  by (simp add: parseSuggestions_def validLoop_take split: sum.splits)

text \<open>
  Claim C9, as amended.  \<open>N\<close> is the maximum that \<open>generate\<close> computes from the
  configuration: the configured \<open>MaxCount\<close> when it is positive, and the default 3 when
  there is no configuration or the configured \<open>MaxCount\<close> is zero or negative.  The text that
  is decoded is the part of the reply from its first \<open>[\<close> to its last \<open>]\<close>; the
  suggestions are the decoded strings without the empty ones, cut to the first \<open>N\<close>, and
  none when the decoding fails.  An event with the suggestions and the agent name is sent
  exactly when the list is not empty.
\<close>

theorem suggestions_parsed_and_emitted:
  fixes config :: "FollowUpSuggestionsConfig option"
  shows "(\<forall>pre mid post. response = pre @ ''['' @ mid @ '']'' @ post
            \<and> CHR ''['' \<notin> set pre \<and> CHR '']'' \<notin> set post \<longrightarrow>
            cleanResponse response = ''['' @ mid @ '']'')
       \<and> parseSuggestions unmarshal response (maxCountOf config) =
            (case unmarshal (cleanResponse response) of
               Inl err \<Rightarrow> []
             | Inr xs \<Rightarrow> take (nat (maxCountOf config)) (filter (\<lambda>s. s \<noteq> []) xs))
       \<and> int (length (parseSuggestions unmarshal response (maxCountOf config))) \<le> maxCountOf config
       \<and> (lastUserMsg \<noteq> [] \<and> lastAssistantMsg \<noteq> []
            \<and> run (userPrompt (maxCountOf config) lastUserMsg lastAssistantMsg) = Inr response \<longrightarrow>
          generate config unmarshal lastUserMsg lastAssistantMsg None run agentName =
            (if parseSuggestions unmarshal response (maxCountOf config) \<noteq> []
             then [FollowUpSuggestions (parseSuggestions unmarshal response (maxCountOf config)) agentName]
             else []))
       \<and> (\<forall>err. unmarshal (cleanResponse response) = Inl err \<and>
             run (userPrompt (maxCountOf config) lastUserMsg lastAssistantMsg) = Inr response \<longrightarrow>
          generate config unmarshal lastUserMsg lastAssistantMsg None run agentName = [])
       \<and> (\<forall>c. config = Some c \<and> 0 < MaxCount c \<longrightarrow> maxCountOf config = MaxCount c)
       \<and> (\<forall>c. config = Some c \<and> MaxCount c \<le> 0 \<longrightarrow> maxCountOf config = 3)
       \<and> (config = None \<longrightarrow> maxCountOf config = 3)"
proof (intro conjI allI impI)
  fix pre mid post
  assume "response = pre @ ''['' @ mid @ '']'' @ post \<and> CHR ''['' \<notin> set pre \<and> CHR '']'' \<notin> set post"
  then show "cleanResponse response = ''['' @ mid @ '']''"
    using cleanResponse_brackets by blast
next
  show p: "parseSuggestions unmarshal response (maxCountOf config) =
      (case unmarshal (cleanResponse response) of
         Inl err \<Rightarrow> []
       | Inr xs \<Rightarrow> take (nat (maxCountOf config)) (filter (\<lambda>s. s \<noteq> []) xs))"
    by (rule parseSuggestions_eq [OF maxCountOf_pos])
  show "int (length (parseSuggestions unmarshal response (maxCountOf config))) \<le> maxCountOf config"
    using maxCountOf_pos [of config] unfolding p by (auto split: sum.splits)
next
  assume "lastUserMsg \<noteq> [] \<and> lastAssistantMsg \<noteq> []
      \<and> run (userPrompt (maxCountOf config) lastUserMsg lastAssistantMsg) = Inr response"
  then show "generate config unmarshal lastUserMsg lastAssistantMsg None run agentName =
      (if parseSuggestions unmarshal response (maxCountOf config) \<noteq> []
       then [FollowUpSuggestions (parseSuggestions unmarshal response (maxCountOf config)) agentName]
       else [])"
    by (simp add: generate_def Let_def)
next
  fix err
  assume "unmarshal (cleanResponse response) = Inl err \<and>
      run (userPrompt (maxCountOf config) lastUserMsg lastAssistantMsg) = Inr response"
  then show "generate config unmarshal lastUserMsg lastAssistantMsg None run agentName = []"
    by (simp add: generate_def Let_def parseSuggestions_def)
next
  fix c assume "config = Some c \<and> 0 < MaxCount c"
  then show "maxCountOf config = MaxCount c" by (simp add: maxCountOf_def)
next
  fix c assume "config = Some c \<and> MaxCount c \<le> 0"
  then show "maxCountOf config = 3" by (simp add: maxCountOf_def defaultMaxCount_def)
next
  assume "config = None"
  then show "maxCountOf config = 3" by (simp add: maxCountOf_def defaultMaxCount_def)
qed

theorem suggestions_parsed_and_emitted_witness:
  "cleanResponse fencedReply = ''[\"a\",\"\",\"b\",\"c\",\"d\"]''
   \<and> parseSuggestions exampleUnmarshalStrings fencedReply (maxCountOf None) = [''a'', ''b'', ''c'']
   \<and> generate None exampleUnmarshalStrings ''hi'' ''hello'' None (\<lambda>prompt. Inr fencedReply) ''root''
       = [FollowUpSuggestions [''a'', ''b'', ''c''] ''root'']
   \<and> generate None exampleUnmarshalStrings ''hi'' ''hello'' None (\<lambda>prompt. Inr ''no array here'') ''root'' = []
   \<and> generate (Some \<lparr> Enabled = True, MaxCount = 2, TimeoutMs = 0 \<rparr>) exampleUnmarshalStrings
        ''hi'' ''hello'' None (\<lambda>prompt. Inr fencedReply) ''root''
       = [FollowUpSuggestions [''a'', ''b''] ''root'']
   \<and> generate (Some \<lparr> Enabled = True, MaxCount = 1, TimeoutMs = 0 \<rparr>) exampleUnmarshalStrings
        ''hi'' ''hello'' None (\<lambda>prompt. Inr fencedReply) ''root''
       = [FollowUpSuggestions [''a''] ''root'']"
proof -
  have c: "cleanResponse fencedReply = ''[\"a\",\"\",\"b\",\"c\",\"d\"]''"
    by (simp add: cleanResponse_def fencedReply_def Index_def LastIndex_def slice_def)
  have c2: "cleanResponse ''no array here'' = ''no array here''"
    by (simp add: cleanResponse_def Index_def LastIndex_def slice_def)
  have t3: "take 3 [''a'', ''b'', ''c'', ''d''] = [''a'', ''b'', ''c'']"
    and t2: "take 2 [''a'', ''b'', ''c'', ''d''] = [''a'', ''b'']"
    by (simp_all add: numeral_3_eq_3 numeral_2_eq_2)
  have m: "maxCountOf None = 3"
    and m2: "maxCountOf (Some \<lparr> Enabled = True, MaxCount = 2, TimeoutMs = 0 \<rparr>) = 2"
    and m1: "maxCountOf (Some \<lparr> Enabled = True, MaxCount = 1, TimeoutMs = 0 \<rparr>) = 1"
    by (simp_all add: maxCountOf_def defaultMaxCount_def)
  have g3: "parseSuggestions exampleUnmarshalStrings fencedReply (maxCountOf None) = [''a'', ''b'', ''c'']
      \<and> generate None exampleUnmarshalStrings ''hi'' ''hello'' None (\<lambda>prompt. Inr fencedReply) ''root''
          = [FollowUpSuggestions [''a'', ''b'', ''c''] ''root'']"
    using suggestions_parsed_and_emitted
         [of fencedReply exampleUnmarshalStrings None "''hi''" "''hello''"
             "\<lambda>prompt. Inr fencedReply" "''root''"]
    by (simp add: c m t3 exampleUnmarshalStrings_def)
  have g0: "generate None exampleUnmarshalStrings ''hi'' ''hello'' None
              (\<lambda>prompt. Inr ''no array here'') ''root'' = []"
    using suggestions_parsed_and_emitted
         [of "''no array here''" exampleUnmarshalStrings None "''hi''" "''hello''"
             "\<lambda>prompt. Inr ''no array here''" "''root''"]
    by (simp add: c2 m exampleUnmarshalStrings_def)
  have g2: "generate (Some \<lparr> Enabled = True, MaxCount = 2, TimeoutMs = 0 \<rparr>) exampleUnmarshalStrings
        ''hi'' ''hello'' None (\<lambda>prompt. Inr fencedReply) ''root''
       = [FollowUpSuggestions [''a'', ''b''] ''root'']"
    using suggestions_parsed_and_emitted
         [of fencedReply exampleUnmarshalStrings
             "Some \<lparr> Enabled = True, MaxCount = 2, TimeoutMs = 0 \<rparr>" "''hi''" "''hello''"
             "\<lambda>prompt. Inr fencedReply" "''root''"]
    by (simp add: c m2 t2 exampleUnmarshalStrings_def)
  have g1: "generate (Some \<lparr> Enabled = True, MaxCount = 1, TimeoutMs = 0 \<rparr>) exampleUnmarshalStrings
        ''hi'' ''hello'' None (\<lambda>prompt. Inr fencedReply) ''root''
       = [FollowUpSuggestions [''a''] ''root'']"
    using suggestions_parsed_and_emitted
         [of fencedReply exampleUnmarshalStrings
             "Some \<lparr> Enabled = True, MaxCount = 1, TimeoutMs = 0 \<rparr>" "''hi''" "''hello''"
             "\<lambda>prompt. Inr fencedReply" "''root''"]
    by (simp add: c m1 exampleUnmarshalStrings_def)
  from c g3 g0 g2 g1 show ?thesis by simp
qed

text \<open>
  Claim C9 as stated fails for a configured maximum that is not positive: \<open>generate\<close> then
  takes the default 3, and the event carries three suggestions, more than the configured
  0 or \<open>-1\<close>.
\<close>

theorem suggestions_exceed_nonpositive_configured_maximum:
  "MaxCount \<lparr> Enabled = True, MaxCount = 0, TimeoutMs = 0 \<rparr> = 0
   \<and> generate (Some \<lparr> Enabled = True, MaxCount = 0, TimeoutMs = 0 \<rparr>) exampleUnmarshalStrings
        ''hi'' ''hello'' None (\<lambda>prompt. Inr fencedReply) ''root''
       = [FollowUpSuggestions [''a'', ''b'', ''c''] ''root'']
   \<and> generate (Some \<lparr> Enabled = True, MaxCount = - 1, TimeoutMs = 0 \<rparr>) exampleUnmarshalStrings
        ''hi'' ''hello'' None (\<lambda>prompt. Inr fencedReply) ''root''
       = [FollowUpSuggestions [''a'', ''b'', ''c''] ''root'']
   \<and> \<not> int (length [''a'', ''b'', ''c'']) \<le> 0"
  by (simp add: generate_def Let_def maxCountOf_def defaultMaxCount_def parseSuggestions_def
      cleanResponse_def fencedReply_def Index_def LastIndex_def slice_def
      exampleUnmarshalStrings_def)

section \<open>Properties of the session import\<close>

text \<open>
  Claim C10.  When the artifact is extracted and holds a session, the session given to the
  store is the exported one with its id replaced by the new UUID and its creation time by
  the time of the import, all other fields (title, items) unchanged; the response carries
  the new id.  When the artifact holds no session the request is rejected with status 400
  and the store is unchanged.
\<close>

theorem importSession_fresh_identity:
  assumes "Bind e = Inr req" and "Reference req \<noteq> []" and "NewStore e = Inr store"
    and "ExtractSessionFromStore (unmarshalExported e) (Reference req) store = Inr exported"
  shows "(\<forall>sess. ExportedData exported = Some sess \<longrightarrow>
            (\<forall>st'. AddSession e st (sess\<lparr> ID := uuidNew e, CreatedAt := timeNow e \<rparr>) = Inr st' \<longrightarrow>
               importSession e st =
                 (Inr (StatusOK, \<lparr> ImportedID = uuidNew e, ImportedTitle = Title sess,
                                   ImportedMessage = ''session imported successfully'' \<rparr>), st'))
          \<and> (\<forall>err. AddSession e st (sess\<lparr> ID := uuidNew e, CreatedAt := timeNow e \<rparr>) = Inl err \<longrightarrow>
               importSession e st =
                 (Inl (HTTPError StatusInternalServerError
                         (''failed to create imported session: '' @ err)), st))
          \<and> ID (sess\<lparr> ID := uuidNew e, CreatedAt := timeNow e \<rparr>) = uuidNew e
          \<and> CreatedAt (sess\<lparr> ID := uuidNew e, CreatedAt := timeNow e \<rparr>) = timeNow e
          \<and> Title (sess\<lparr> ID := uuidNew e, CreatedAt := timeNow e \<rparr>) = Title sess
          \<and> Messages (sess\<lparr> ID := uuidNew e, CreatedAt := timeNow e \<rparr>) = Messages sess)
       \<and> (ExportedData exported = None \<longrightarrow>
            importSession e st =
              (Inl (HTTPError StatusBadRequest ''invalid session data in artifact''), st))"
  using assms by (simp add: importSession_def Let_def)

theorem importSession_fresh_identity_witness:
  "importSession (importExample (Some exportedOriginal)) []
     = (Inr (200, \<lparr> ImportedID = ''7b0e5a9c-0000-4000-8000-000000000001'',
                    ImportedTitle = ''Trip planning'',
                    ImportedMessage = ''session imported successfully'' \<rparr>),
        [exportedOriginal\<lparr> ID := ''7b0e5a9c-0000-4000-8000-000000000001'', CreatedAt := 2000 \<rparr>])
   \<and> importSession (importExample None) []
     = (Inl (HTTPError 400 ''invalid session data in artifact''), [])"
  using importSession_fresh_identity
          [of "importExample (Some exportedOriginal)" "\<lparr> Reference = ''user/sessions:trip'' \<rparr>"
              "\<lambda>identifier. Inr ''artifact''"
              "\<lparr> Version = ''1'', ExportedAt = ''2025-01-01T00:00:00Z'', ExportedData = Some exportedOriginal \<rparr>"
              "[]"]
        importSession_fresh_identity
          [of "importExample None" "\<lparr> Reference = ''user/sessions:trip'' \<rparr>"
              "\<lambda>identifier. Inr ''artifact''"
              "\<lparr> Version = ''1'', ExportedAt = ''2025-01-01T00:00:00Z'', ExportedData = None \<rparr>"
              "[]"]
  by (simp add: importExample_def ExtractSessionFromStore_def memoryAdd_def StatusOK_def
      StatusBadRequest_def exportedOriginal_def)

section \<open>Properties of the session context engine\<close>

lemmas data_defs = plainMessage_def functionCall_def newAgent_def todoInstructions_def
  narrativeSession_def toolCallOnlySession_def summarySession_def todoAgent_def
  AddMessage_def NewAgentMessage_def trimExample_def foreignUserSession_def

lemmas view_defs = GetMessages_def systemZones_def invariantZone_def contextZone_def
  summaryZone_def walkedItems_def markLast_def viewItem_def foreignView_def narrativeLines_def
  saidLine_def calledLine_def resultLine_def systemMessage_def userMessage_def

subsection \<open>The model against the tests of the package\<close>

text \<open>The model gives what these tests of \<open>src/unnamed/part_002\<close> expect.  The test
  \<open>TestGetMessages_CacheControlWithSummary\<close> is not among them; it is the subject of the
  subsection on cache checkpoints.\<close>

lemma Test_Instructions:
  "GetMessages today (newAgent ''root'' ''instructions'') []
     = [(systemMessage ''instructions'')\<lparr> CacheControl := True \<rparr>]"
  by (simp add: view_defs data_defs)

lemma Test_CacheControl:
  "length (GetMessages today ((newAgent ''root'' ''instructions'')\<lparr> toolSets := [todoInstructions] \<rparr>) []) = 2
   \<and> map Content (GetMessages today ((newAgent ''root'' ''instructions'')\<lparr> toolSets := [todoInstructions] \<rparr>) [])
       = [''instructions'', todoInstructions]
   \<and> map CacheControl (GetMessages today ((newAgent ''root'' ''instructions'')\<lparr> toolSets := [todoInstructions] \<rparr>) [])
       = [False, True]
   \<and> Contains todoInstructions ''Using the Todo Tools''"
  by (simp add: view_defs data_defs)

lemma Test_WithSummary:
  "length (filter (\<lambda>m. Role m = MessageRoleUser \<or> Role m = MessageRoleAssistant)
             (GetMessages today (newAgent [] []) summarySession)) = 2
   \<and> map Content (filter (\<lambda>m. Role m = MessageRoleSystem
                              \<and> Content m = ''Session Summary: This is a summary of the conversation so far'')
                    (GetMessages today (newAgent [] []) summarySession))
       = [''Session Summary: This is a summary of the conversation so far'']"
  by (simp add: view_defs data_defs)

lemma Test_SameAgentToolCallsUnchanged:
  "conversation
     (GetMessages today (newAgent ''my-agent'' ''you are my agent'')
        (AddMessage (AddMessage (AddMessage []
           (NewAgentMessage (newAgent ''my-agent'' ''you are my agent'')
              (plainMessage MessageRoleUser ''do something'')))
           (NewAgentMessage (newAgent ''my-agent'' ''you are my agent'')
              ((plainMessage MessageRoleAssistant ''I will use a tool'')
                 \<lparr> ToolCalls := [functionCall ''own-call-1'' ''my_tool'' ''{\"x\": 1}''] \<rparr>)))
           (NewAgentMessage (newAgent ''my-agent'' ''you are my agent'')
              ((plainMessage MessageRoleTool ''tool output'') \<lparr> ToolCallID := ''own-call-1'' \<rparr>))))
   = [plainMessage MessageRoleUser ''do something'',
      (plainMessage MessageRoleAssistant ''I will use a tool'')
        \<lparr> ToolCalls := [functionCall ''own-call-1'' ''my_tool'' ''{\"x\": 1}''] \<rparr>,
      (plainMessage MessageRoleTool ''tool output'') \<lparr> ToolCallID := ''own-call-1'' \<rparr>]"
  by (simp add: view_defs data_defs conversation_def)

lemma Test_TrimMessagesWithToolCalls:
  "length (trimMessages trimExample 3) = 3 \<and> toolCallsBacked [] (trimMessages trimExample 3)"
  by (simp add: trimMessages_def data_defs numeral_3_eq_3)

subsection \<open>Summary marker\<close>

lemma lastSummary_none:
  "(\<forall>it \<in> set items. \<forall>t. it \<noteq> SummaryMarker t) \<Longrightarrow> lastSummary items = None"
  by (induction items) (auto split: Item.splits option.splits)

lemma lastSummary_split:
  "(\<forall>it \<in> set rest. \<forall>t. it \<noteq> SummaryMarker t) \<Longrightarrow>
   lastSummary (before @ SummaryMarker smry # rest) = Some (smry, rest)"
  by (induction before) (simp_all add: lastSummary_none)

lemma lastSummary_cases:
  "(lastSummary items = None \<and> (\<forall>it \<in> set items. \<forall>t. it \<noteq> SummaryMarker t))
   \<or> (\<exists>before smry rest. items = before @ SummaryMarker smry # rest
         \<and> (\<forall>it \<in> set rest. \<forall>t. it \<noteq> SummaryMarker t)
         \<and> lastSummary items = Some (smry, rest))"
proof (induction items)
  case Nil
  then show ?case by simp
next
  case (Cons it items)
  from Cons.IH show ?case
  proof
    assume n: "lastSummary items = None \<and> (\<forall>it \<in> set items. \<forall>t. it \<noteq> SummaryMarker t)"
    show ?thesis
    proof (cases it)
      case (MessageItem m)
      with n show ?thesis by simp
    next
      case (SummaryMarker smry)
      with n have "it # items = [] @ SummaryMarker smry # items
          \<and> (\<forall>it \<in> set items. \<forall>t. it \<noteq> SummaryMarker t)
          \<and> lastSummary (it # items) = Some (smry, items)" by simp
      then show ?thesis by blast
    qed
  next
    assume "\<exists>before smry rest. items = before @ SummaryMarker smry # rest
         \<and> (\<forall>it \<in> set rest. \<forall>t. it \<noteq> SummaryMarker t)
         \<and> lastSummary items = Some (smry, rest)"
    then obtain before smry rest where
      s: "items = before @ SummaryMarker smry # rest"
         "\<forall>it \<in> set rest. \<forall>t. it \<noteq> SummaryMarker t"
         "lastSummary items = Some (smry, rest)" by blast
    then have "it # items = (it # before) @ SummaryMarker smry # rest
         \<and> (\<forall>it \<in> set rest. \<forall>t. it \<noteq> SummaryMarker t)
         \<and> lastSummary (it # items) = Some (smry, rest)" by simp
    then show ?thesis by blast
  qed
qed

text \<open>
  Claim C4.  When the history has a marker, it splits in one way into the items before the
  most recent marker, that marker, and the items after it.  The view is then the
  instruction and context zones, one system message \<open>Session Summary: <text>\<close> with the text
  of that marker (it is the summary zone and carries the checkpoint of that zone), and the
  walked items after the marker; the items before the marker have
  no part in it.  When the history has no marker, every item is walked.
\<close>

theorem summary_replaces_items_before_marker:
  "(\<forall>before smry rest.
      items = before @ SummaryMarker smry # rest \<and> (\<forall>it \<in> set rest. \<forall>t. it \<noteq> SummaryMarker t) \<longrightarrow>
        GetMessages today a items =
          markLast (invariantZone a) @ markLast (contextZone today a)
          @ [(systemMessage (''Session Summary: '' @ smry))\<lparr> CacheControl := True \<rparr>]
          @ concat (map (viewItem (name a)) rest)
      \<and> GetMessages today a items = GetMessages today a (SummaryMarker smry # rest))
   \<and> ((\<exists>t. SummaryMarker t \<in> set items) \<longrightarrow>
        (\<exists>before smry rest. items = before @ SummaryMarker smry # rest
           \<and> (\<forall>it \<in> set rest. \<forall>t. it \<noteq> SummaryMarker t)))
   \<and> ((\<forall>it \<in> set items. \<forall>t. it \<noteq> SummaryMarker t) \<longrightarrow>
        GetMessages today a items =
          markLast (invariantZone a) @ markLast (contextZone today a)
          @ concat (map (viewItem (name a)) items))"
proof (intro conjI allI impI)
  fix before smry rest
  assume h: "items = before @ SummaryMarker smry # rest \<and> (\<forall>it \<in> set rest. \<forall>t. it \<noteq> SummaryMarker t)"
  then have l: "lastSummary items = Some (smry, rest)" by (simp add: lastSummary_split)
  then show g: "GetMessages today a items =
          markLast (invariantZone a) @ markLast (contextZone today a)
          @ [(systemMessage (''Session Summary: '' @ smry))\<lparr> CacheControl := True \<rparr>]
          @ concat (map (viewItem (name a)) rest)"
    by (simp add: GetMessages_def systemZones_def summaryZone_def walkedItems_def markLast_def)
  from h have "lastSummary ([] @ SummaryMarker smry # rest) = Some (smry, rest)"
    by (intro lastSummary_split) simp
  then show "GetMessages today a items = GetMessages today a (SummaryMarker smry # rest)"
    unfolding g
    by (simp add: GetMessages_def systemZones_def summaryZone_def walkedItems_def markLast_def)
next
  assume "\<exists>t. SummaryMarker t \<in> set items"
  then show "\<exists>before smry rest. items = before @ SummaryMarker smry # rest
           \<and> (\<forall>it \<in> set rest. \<forall>t. it \<noteq> SummaryMarker t)"
    using lastSummary_cases [of items] by blast
next
  assume "\<forall>it \<in> set items. \<forall>t. it \<noteq> SummaryMarker t"
  then have "lastSummary items = None" by (rule lastSummary_none)
  then show "GetMessages today a items =
          markLast (invariantZone a) @ markLast (contextZone today a)
          @ concat (map (viewItem (name a)) items)"
    by (simp add: GetMessages_def systemZones_def summaryZone_def walkedItems_def markLast_def)
qed

theorem summary_replaces_items_before_marker_witness:
  "map Content (GetMessages ''2026-11-01'' (newAgent [] []) summarySession)
     = [[], ''Session Summary: This is a summary of the conversation so far'',
        ''message after summary'', ''response after summary'']
   \<and> map Role (GetMessages ''2026-11-01'' (newAgent [] []) summarySession)
     = [MessageRoleSystem, MessageRoleSystem, MessageRoleUser, MessageRoleAssistant]"
  using summary_replaces_items_before_marker [of summarySession "''2026-11-01''" "newAgent [] []"]
  by (simp add: view_defs data_defs)

subsection \<open>Items of other agents\<close>

lemma joinLines_nonempty: "ls \<noteq> [] \<Longrightarrow> hd ls \<noteq> [] \<Longrightarrow> joinLines ls \<noteq> []"
  by (cases ls rule: joinLines.cases) auto

text \<open>
  Claim C1.  The view is the system zones followed by the walked items, each through
  \<open>viewItem\<close>.  An item of another agent gives only messages of role user without tool calls
  and without tool-call id.  Its assistant item gives one message whose lines are
  \<open>For context: [<agent>] said: <content>\<close> (when it has content) and, for each tool call,
  \<open>[<agent>] called tool `<name>` with parameters: <json>\<close>; with tool calls and no content
  the message is still there and not empty.  Its tool result gives
  \<open>For context: Tool returned result: <content>\<close>, and nothing when the content is empty.
  Its user or system item gives one message with the content of the item.  Every item of
  another agent other than a tool result without content thus gives exactly one message,
  and the messages of a walked item are in the view.
\<close>

theorem foreign_items_become_user_narrative:
  "GetMessages today a items =
     systemZones today a items @ concat (map (viewItem (name a)) (walkedItems items))
   \<and> (\<forall>am. AgentName am \<noteq> name a \<longrightarrow>
        (\<forall>m \<in> set (viewItem (name a) (MessageItem am)).
            Role m = MessageRoleUser \<and> ToolCalls m = [] \<and> ToolCallID m = [])
      \<and> (Role (Message am) = MessageRoleAssistant \<longrightarrow>
            map Content (viewItem (name a) (MessageItem am)) =
              [joinLines
                 ((if Content (Message am) \<noteq> []
                   then [''For context: ['' @ AgentName am @ ''] said: '' @ Content (Message am)]
                   else [])
                  @ map (\<lambda>call. ''['' @ AgentName am @ ''] called tool `'' @ Name (Function call)
                                  @ ''` with parameters: '' @ Arguments (Function call))
                        (ToolCalls (Message am)))])
      \<and> (Role (Message am) = MessageRoleAssistant \<and> Content (Message am) = []
            \<and> ToolCalls (Message am) \<noteq> [] \<longrightarrow>
            (\<exists>m. viewItem (name a) (MessageItem am) = [m] \<and> Content m \<noteq> []))
      \<and> (Role (Message am) = MessageRoleTool \<and> Content (Message am) \<noteq> [] \<longrightarrow>
            map Content (viewItem (name a) (MessageItem am)) =
              [''For context: Tool returned result: '' @ Content (Message am)])
      \<and> (Role (Message am) = MessageRoleTool \<and> Content (Message am) = [] \<longrightarrow>
            viewItem (name a) (MessageItem am) = [])
      \<and> (Role (Message am) = MessageRoleUser \<or> Role (Message am) = MessageRoleSystem \<longrightarrow>
            map Content (viewItem (name a) (MessageItem am)) = [Content (Message am)])
      \<and> (\<not> (Role (Message am) = MessageRoleTool \<and> Content (Message am) = []) \<longrightarrow>
            length (viewItem (name a) (MessageItem am)) = 1)
      \<and> (MessageItem am \<in> set (walkedItems items) \<longrightarrow>
            set (viewItem (name a) (MessageItem am)) \<subseteq> set (GetMessages today a items)))"
proof (intro conjI allI impI ballI)
  show "GetMessages today a items =
     systemZones today a items @ concat (map (viewItem (name a)) (walkedItems items))"
    by (simp add: GetMessages_def)
next
  fix am :: AgentMessage and m
  assume "AgentName am \<noteq> name a" and "m \<in> set (viewItem (name a) (MessageItem am))"
  then have m: "m \<in> set (foreignView (AgentName am) (Message am))"
    by (simp add: viewItem_def)
  then show "Role m = MessageRoleUser" "ToolCalls m = []" "ToolCallID m = []"
    by (auto simp: foreignView_def userMessage_def split: MessageRole.splits if_splits)
next
  fix am :: AgentMessage
  assume "AgentName am \<noteq> name a" and "Role (Message am) = MessageRoleAssistant"
  then show "map Content (viewItem (name a) (MessageItem am)) =
              [joinLines
                 ((if Content (Message am) \<noteq> []
                   then [''For context: ['' @ AgentName am @ ''] said: '' @ Content (Message am)]
                   else [])
                  @ map (\<lambda>call. ''['' @ AgentName am @ ''] called tool `'' @ Name (Function call)
                                  @ ''` with parameters: '' @ Arguments (Function call))
                        (ToolCalls (Message am)))]"
    by (simp add: viewItem_def foreignView_def userMessage_def narrativeLines_def saidLine_def
        calledLine_def [abs_def])
next
  fix am :: AgentMessage
  assume f: "AgentName am \<noteq> name a"
    and r: "Role (Message am) = MessageRoleAssistant \<and> Content (Message am) = []
            \<and> ToolCalls (Message am) \<noteq> []"
  then have "narrativeLines (AgentName am) (Message am) \<noteq> []"
    and "hd (narrativeLines (AgentName am) (Message am)) \<noteq> []"
    by (auto simp: narrativeLines_def calledLine_def hd_map)
  then have "joinLines (narrativeLines (AgentName am) (Message am)) \<noteq> []"
    by (rule joinLines_nonempty)
  with f r show "\<exists>m. viewItem (name a) (MessageItem am) = [m] \<and> Content m \<noteq> []"
    by (simp add: viewItem_def foreignView_def userMessage_def)
next
  fix am :: AgentMessage
  assume "AgentName am \<noteq> name a"
    and "Role (Message am) = MessageRoleTool \<and> Content (Message am) \<noteq> []"
  then show "map Content (viewItem (name a) (MessageItem am)) =
              [''For context: Tool returned result: '' @ Content (Message am)]"
    by (simp add: viewItem_def foreignView_def userMessage_def resultLine_def)
next
  fix am :: AgentMessage
  assume "AgentName am \<noteq> name a"
    and "Role (Message am) = MessageRoleTool \<and> Content (Message am) = []"
  then show "viewItem (name a) (MessageItem am) = []"
    by (simp add: viewItem_def foreignView_def)
next
  fix am :: AgentMessage
  assume "AgentName am \<noteq> name a"
    and "Role (Message am) = MessageRoleUser \<or> Role (Message am) = MessageRoleSystem"
  then show "map Content (viewItem (name a) (MessageItem am)) = [Content (Message am)]"
    by (auto simp: viewItem_def foreignView_def userMessage_def)
next
  fix am :: AgentMessage
  assume "AgentName am \<noteq> name a"
    and "\<not> (Role (Message am) = MessageRoleTool \<and> Content (Message am) = [])"
  then show "length (viewItem (name a) (MessageItem am)) = 1"
    by (cases "Role (Message am)") (auto simp: viewItem_def foreignView_def)
next
  fix am :: AgentMessage
  assume "MessageItem am \<in> set (walkedItems items)"
  then show "set (viewItem (name a) (MessageItem am)) \<subseteq> set (GetMessages today a items)"
    by (auto simp: GetMessages_def)
qed

theorem foreign_items_become_user_narrative_witness:
  "conversation (GetMessages ''2026-11-01'' (newAgent ''current-agent'' ''you are the current agent'') narrativeSession)
     = [plainMessage MessageRoleUser ''find info about Go'',
        plainMessage MessageRoleUser
          (''For context: [other-agent] said: Let me search for that'' @ [CHR 0x0A]
           @ ''[other-agent] called tool `web_search` with parameters: {\"query\": \"Go programming\"}''),
        plainMessage MessageRoleUser
          ''For context: Tool returned result: Go is a statically typed language'',
        plainMessage MessageRoleUser
          ''For context: [other-agent] said: Here is what I found about Go'']
   \<and> conversation (GetMessages ''2026-11-01'' (newAgent ''agent-a'' ''you are agent a'') toolCallOnlySession)
     = [plainMessage MessageRoleUser
          ''[agent-b] called tool `read_file` with parameters: {\"path\": \"/tmp/test.txt\"}'']
   \<and> conversation (GetMessages ''2026-11-01'' (newAgent ''current-agent'' ''you are the current agent'')
                      foreignUserSession)
     = [plainMessage MessageRoleUser ''What about Rust?'',
        plainMessage MessageRoleUser ''Answer briefly'']"
proof -
  have n: "conversation (GetMessages ''2026-11-01''
              (newAgent ''current-agent'' ''you are the current agent'') narrativeSession)
     = [plainMessage MessageRoleUser ''find info about Go'',
        plainMessage MessageRoleUser
          (''For context: [other-agent] said: Let me search for that'' @ [CHR 0x0A]
           @ ''[other-agent] called tool `web_search` with parameters: {\"query\": \"Go programming\"}''),
        plainMessage MessageRoleUser
          ''For context: Tool returned result: Go is a statically typed language'',
        plainMessage MessageRoleUser
          ''For context: [other-agent] said: Here is what I found about Go'']"
    using foreign_items_become_user_narrative
            [of "''2026-11-01''" "newAgent ''current-agent'' ''you are the current agent''"
                narrativeSession, THEN conjunct2, rule_format,
             of "NewAgentMessage (newAgent ''other-agent'' ''you are the other agent'')
                   ((plainMessage MessageRoleTool ''Go is a statically typed language'')
                      \<lparr> ToolCallID := ''call-123'' \<rparr>)"]
    by (simp add: view_defs data_defs conversation_def)
  have t: "conversation (GetMessages ''2026-11-01'' (newAgent ''agent-a'' ''you are agent a'')
              toolCallOnlySession)
     = [plainMessage MessageRoleUser
          ''[agent-b] called tool `read_file` with parameters: {\"path\": \"/tmp/test.txt\"}'']"
    using foreign_items_become_user_narrative
            [of "''2026-11-01''" "newAgent ''agent-a'' ''you are agent a''" toolCallOnlySession,
             THEN conjunct2, rule_format,
             of "NewAgentMessage (newAgent ''agent-b'' ''you are agent b'')
                   ((plainMessage MessageRoleAssistant [])
                      \<lparr> ToolCalls := [functionCall ''call-456'' ''read_file''
                                         ''{\"path\": \"/tmp/test.txt\"}''] \<rparr>)"]
    by (simp add: view_defs data_defs conversation_def)
  have u: "conversation (GetMessages ''2026-11-01''
              (newAgent ''current-agent'' ''you are the current agent'') foreignUserSession)
     = [plainMessage MessageRoleUser ''What about Rust?'',
        plainMessage MessageRoleUser ''Answer briefly'']"
    using foreign_items_become_user_narrative
            [of "''2026-11-01''" "newAgent ''current-agent'' ''you are the current agent''"
                foreignUserSession, THEN conjunct2, rule_format,
             of "NewAgentMessage (newAgent ''other-agent'' ''you are the other agent'')
                   (plainMessage MessageRoleUser ''What about Rust?'')"]
    by (simp add: view_defs data_defs conversation_def)
  from n t u show ?thesis by (intro conjI)
qed

subsection \<open>Cache checkpoints\<close>

lemma all_unflagged:
  "\<forall>m \<in> set zone. \<not> CacheControl m \<Longrightarrow>
   map CacheControl zone = replicate (length zone) False"
  by (induction zone) auto

lemma markLast_flags:
  assumes "zone \<noteq> []" and "\<forall>m \<in> set zone. \<not> CacheControl m"
  shows "map CacheControl (markLast zone) = replicate (length zone - 1) False @ [True]"
proof -
  have "\<forall>m \<in> set (butlast zone). \<not> CacheControl m"
    using assms(2) by (meson in_set_butlastD)
  then have "map CacheControl (butlast zone) = replicate (length (butlast zone)) False"
    by (rule all_unflagged)
  with assms(1) show ?thesis by (simp add: markLast_def)
qed

lemma invariantZone_unflagged: "\<forall>m \<in> set (invariantZone a). \<not> CacheControl m"
  by (auto simp: invariantZone_def systemMessage_def)

lemma count_flags: "length (filter CacheControl ms) = length (filter id (map CacheControl ms))"
  by (induction ms) auto

lemma summaryZone_unflagged: "\<forall>m \<in> set (summaryZone items). \<not> CacheControl m"
  by (auto simp: summaryZone_def systemMessage_def split: option.splits)

lemma contextZone_unflagged: "\<forall>m \<in> set (contextZone today a). \<not> CacheControl m"
  by (auto simp: contextZone_def systemMessage_def)

lemma checkpoints_one_per_zone:
  "GetMessages today a items =
     markLast (invariantZone a) @ markLast (contextZone today a) @ markLast (summaryZone items)
     @ concat (map (viewItem (name a)) (walkedItems items))
   \<and> map CacheControl (markLast (invariantZone a))
       = replicate (length (invariantZone a) - 1) False @ [True]
   \<and> map CacheControl (markLast (contextZone today a)) = (if addDate a then [True] else [])
   \<and> map CacheControl (markLast (summaryZone items))
       = (if lastSummary items = None then [] else [True])
   \<and> length (filter CacheControl (systemZones today a items))
       = 1 + (if addDate a then 1 else 0) + (if lastSummary items = None then 0 else 1)"
proof (intro conjI)
  show "GetMessages today a items =
     markLast (invariantZone a) @ markLast (contextZone today a) @ markLast (summaryZone items)
     @ concat (map (viewItem (name a)) (walkedItems items))"
    by (simp add: GetMessages_def systemZones_def)
  have n: "invariantZone a \<noteq> []" by (simp add: invariantZone_def)
  show i: "map CacheControl (markLast (invariantZone a))
       = replicate (length (invariantZone a) - 1) False @ [True]"
    using n invariantZone_unflagged by (rule markLast_flags)
  show c: "map CacheControl (markLast (contextZone today a)) = (if addDate a then [True] else [])"
    by (simp add: contextZone_def markLast_def)
  show s: "map CacheControl (markLast (summaryZone items))
       = (if lastSummary items = None then [] else [True])"
    by (auto simp: summaryZone_def markLast_def split: option.splits)
  show "length (filter CacheControl (systemZones today a items))
       = 1 + (if addDate a then 1 else 0) + (if lastSummary items = None then 0 else 1)"
    unfolding count_flags systemZones_def map_append i c s by simp
qed

lemma checkpointIndices_member:
  "i \<in> set (checkpointIndices messages) \<longleftrightarrow>
     i < length messages \<and> Role (messages ! i) = MessageRoleSystem \<and> CacheControl (messages ! i)"
  by (auto simp: checkpointIndices_def)

lemma TestCacheControlWithSummary_leaves_summary_unflagged:
  assumes "TestCacheControlWithSummary messages"
    and "i < length messages"
    and "Role (messages ! i) = MessageRoleSystem"
    and "Content (messages ! i) = ''Session Summary: Test summary''"
  shows "\<not> CacheControl (messages ! i)"
proof
  assume "CacheControl (messages ! i)"
  with assms(2,3) have "i \<in> set (checkpointIndices messages)"
    by (simp add: checkpointIndices_member)
  then obtain k where k: "k < length (checkpointIndices messages)"
      "checkpointIndices messages ! k = i"
    by (auto simp: in_set_conv_nth)
  from assms(1) have l: "length (checkpointIndices messages) = 2"
    and c0: "Contains (Content (messages ! (checkpointIndices messages ! 0))) ''Using the Todo Tools''"
    and c1: "Contains (Content (messages ! (checkpointIndices messages ! 1))) ''Today's date''"
    by (simp_all add: TestCacheControlWithSummary_def)
  from k l have "k = 0 \<or> k = 1" by auto
  then show False
  proof
    assume "k = 0"
    with k c0 assms(4) have "Contains ''Session Summary: Test summary'' ''Using the Todo Tools''"
      by simp
    then show False by simp
  next
    assume "k = 1"
    with k c1 assms(4) have "Contains ''Session Summary: Test summary'' ''Today's date''"
      by simp
    then show False by simp
  qed
qed


subsection \<open>Trimming\<close>

lemma toolCallsBacked_iff:
  "toolCallsBacked seen ms \<longleftrightarrow>
     (\<forall>j<length ms. Role (ms ! j) = MessageRoleTool \<longrightarrow>
        ToolCallID (ms ! j) \<in> set seen
        \<or> (\<exists>i<j. Role (ms ! i) = MessageRoleAssistant
                  \<and> ToolCallID (ms ! j) \<in> CallID ` set (ToolCalls (ms ! i))))"
proof (induction ms arbitrary: seen)
  case Nil
  then show ?case by simp
next
  case (Cons m ms)
  show ?case
    unfolding toolCallsBacked.simps Let_def Cons.IH
    by (auto simp: All_less_Suc2 Ex_less_Suc2)
qed

lemma toolCallsBacked_orphaned:
  "toolCallsBacked [] ms \<longleftrightarrow> (\<forall>j<length ms. \<not> orphaned ms j)"
  by (auto simp: toolCallsBacked_iff orphaned_def) blast+

lemma extendLeft_window:
  "\<exists>m\<le>n. extendLeft items n = drop m items
       \<and> (m = 0 \<or> toolCallsBacked [] (drop m items))
       \<and> (\<forall>k. m < k \<and> k \<le> n \<longrightarrow> \<not> toolCallsBacked [] (drop k items))"
proof (induction n)
  case 0
  then show ?case by simp
next
  case (Suc n)
  show ?case
  proof (cases "toolCallsBacked [] (drop (Suc n) items)")
    case True
    then have "extendLeft items (Suc n) = drop (Suc n) items
       \<and> (Suc n = 0 \<or> toolCallsBacked [] (drop (Suc n) items))
       \<and> (\<forall>k. Suc n < k \<and> k \<le> Suc n \<longrightarrow> \<not> toolCallsBacked [] (drop k items))"
      by simp
    then show ?thesis by blast
  next
    case False
    from Suc.IH obtain m where m: "m \<le> n" "extendLeft items n = drop m items"
      "m = 0 \<or> toolCallsBacked [] (drop m items)"
      "\<forall>k. m < k \<and> k \<le> n \<longrightarrow> \<not> toolCallsBacked [] (drop k items)" by blast
    have "\<forall>k. m < k \<and> k \<le> Suc n \<longrightarrow> \<not> toolCallsBacked [] (drop k items)"
      using m(4) False by (metis le_SucE)
    with m False have "m \<le> Suc n \<and> extendLeft items (Suc n) = drop m items
       \<and> (m = 0 \<or> toolCallsBacked [] (drop m items))
       \<and> (\<forall>k. m < k \<and> k \<le> Suc n \<longrightarrow> \<not> toolCallsBacked [] (drop k items))"
      by simp
    then show ?thesis by blast
  qed
qed

text \<open>
  Claim C5.  \<open>trimMessages items maxItems\<close> is a suffix of \<open>items\<close> that starts at the window
  of the most recent \<open>maxItems\<close> items or further left, and every window between the two
  starts holds an orphaned tool item: the window is extended only as long as it has to be.
  When the window of the most recent \<open>maxItems\<close> items has no orphaned tool item, the result
  is that window.  A tool item of the result is orphaned in the result only if the result
  is the whole list, so that its owner is in no part of the history; in particular a list
  without orphans is trimmed to a list without orphans.  The result has at least
  \<open>maxItems\<close> items (or all of them when there are fewer): \<open>maxItems\<close> is a floor.
\<close>

theorem trimMessages_extends_window_to_owner:
  "(\<exists>m\<le>windowStart items maxItems.
       trimMessages items maxItems = drop m items
     \<and> (\<forall>k. m < k \<and> k \<le> windowStart items maxItems \<longrightarrow>
           (\<exists>j<length (drop k items). orphaned (drop k items) j)))
   \<and> ((\<forall>j<length (drop (windowStart items maxItems) items).
          \<not> orphaned (drop (windowStart items maxItems) items) j) \<longrightarrow>
       trimMessages items maxItems = drop (windowStart items maxItems) items)
   \<and> (\<forall>j<length (trimMessages items maxItems).
          orphaned (trimMessages items maxItems) j \<longrightarrow> trimMessages items maxItems = items)
   \<and> ((\<forall>j<length items. \<not> orphaned items j) \<longrightarrow>
       (\<forall>j<length (trimMessages items maxItems). \<not> orphaned (trimMessages items maxItems) j))
   \<and> min (nat maxItems) (length items) \<le> length (trimMessages items maxItems)
   \<and> (0 \<le> maxItems \<and> maxItems \<le> int (length items) \<longrightarrow>
       length (drop (windowStart items maxItems) items) = nat maxItems)"
proof -
  let ?n = "windowStart items maxItems"
  from extendLeft_window [of ?n items]
  obtain m where m: "m \<le> ?n" "trimMessages items maxItems = drop m items"
      "m = 0 \<or> toolCallsBacked [] (drop m items)"
      "\<forall>k. m < k \<and> k \<le> ?n \<longrightarrow> \<not> toolCallsBacked [] (drop k items)"
    unfolding trimMessages_def windowStart_def by blast
  have a: "\<exists>m\<le>?n. trimMessages items maxItems = drop m items
     \<and> (\<forall>k. m < k \<and> k \<le> ?n \<longrightarrow> (\<exists>j<length (drop k items). orphaned (drop k items) j))"
    using m(1,2,4) unfolding toolCallsBacked_orphaned by blast
  have b: "(\<forall>j<length (drop ?n items). \<not> orphaned (drop ?n items) j) \<longrightarrow>
       trimMessages items maxItems = drop ?n items"
  proof
    assume "\<forall>j<length (drop ?n items). \<not> orphaned (drop ?n items) j"
    then have "toolCallsBacked [] (drop ?n items)" by (simp only: toolCallsBacked_orphaned)
    with m(1,4) have "m = ?n" by (metis le_neq_implies_less order_refl)
    with m(2) show "trimMessages items maxItems = drop ?n items" by simp
  qed
  have c: "\<forall>j<length (trimMessages items maxItems).
          orphaned (trimMessages items maxItems) j \<longrightarrow> trimMessages items maxItems = items"
  proof (intro allI impI)
    fix j assume j: "j < length (trimMessages items maxItems)"
      and o: "orphaned (trimMessages items maxItems) j"
    then have "\<not> toolCallsBacked [] (drop m items)"
      unfolding toolCallsBacked_orphaned m(2) by blast
    with m(3) have "m = 0" by blast
    with m(2) show "trimMessages items maxItems = items" by simp
  qed
  have d: "(\<forall>j<length items. \<not> orphaned items j) \<longrightarrow>
       (\<forall>j<length (trimMessages items maxItems). \<not> orphaned (trimMessages items maxItems) j)"
    using c by metis
  have e: "min (nat maxItems) (length items) \<le> length (trimMessages items maxItems)"
    using m(1) unfolding m(2) windowStart_def by auto
  have f: "0 \<le> maxItems \<and> maxItems \<le> int (length items) \<longrightarrow>
       length (drop ?n items) = nat maxItems"
    unfolding windowStart_def by auto
  from a b c d e f show ?thesis by blast
qed

theorem trimMessages_extends_window_to_owner_witness:
  "trimMessages trimExample 3 = drop 3 trimExample
   \<and> length (trimMessages trimExample 3) = 3
   \<and> trimMessages trimExample 1 = drop 4 trimExample
   \<and> length (trimMessages trimExample 1) = 2
   \<and> orphaned (drop 5 trimExample) 0"
  using trimMessages_extends_window_to_owner [of trimExample 3]
        trimMessages_extends_window_to_owner [of trimExample 1]
  by (simp add: trimMessages_def data_defs orphaned_def numeral_3_eq_3 eval_nat_numeral)

end
